theory Spec2Isabelle
  imports Main
begin

section \<open>Items, the queue and the processor state\<close>

text \<open>
  Modelled from the spec: the status enumeration of \<^verbatim>\<open>@shared/types\<close> is not part of the
  sources at hand. The states are those of the item state machine, plus \<open>Extracting\<close>, which
  \<^verbatim>\<open>updateItemStatus\<close> tests for.
\<close>

datatype DownloadStatus =
  Queued | Downloading | Paused | Extracting | Completed | Error | Cancelled

text \<open>
  Modelled from the spec: \<^verbatim>\<open>DownloadItem\<close> of \<^verbatim>\<open>@shared/types\<close>, with the fields that
  \<^verbatim>\<open>downloadProcessor.ts\<close> reads or writes. An optional field is an \<open>option\<close>; the declared
  size is the text the catalogue gives (\<^verbatim>\<open>item.size\<close>).
\<close>

record DownloadItem =
  releaseName :: string
  status :: DownloadStatus
  progress :: nat
  error :: "string option"
  speed :: "string option"
  eta :: "string option"
  pid :: "nat option"
  size_text :: "string option"
  downloadPath :: string
  extractProgress :: "nat option"

text \<open>
  \<^verbatim>\<open>Partial<DownloadItem>\<close>: a key is absent (\<open>None\<close>) or present with a value; a key present
  with the value \<^verbatim>\<open>undefined\<close> is \<open>Some None\<close> and overwrites the field.
\<close>

record ItemUpdates =
  u_status :: "DownloadStatus option"
  u_progress :: "nat option"
  u_error :: "string option option"
  u_speed :: "string option option"
  u_eta :: "string option option"
  u_pid :: "nat option option"
  u_downloadPath :: "string option"
  u_extractProgress :: "nat option option"

definition noUpdates :: ItemUpdates where
  "noUpdates = \<lparr>u_status = None, u_progress = None, u_error = None, u_speed = None,
     u_eta = None, u_pid = None, u_downloadPath = None, u_extractProgress = None\<rparr>"

definition orElse :: "'a option \<Rightarrow> 'a \<Rightarrow> 'a" where
  "orElse u old = (case u of None \<Rightarrow> old | Some v \<Rightarrow> v)"

definition applyUpdates :: "ItemUpdates \<Rightarrow> DownloadItem \<Rightarrow> DownloadItem" where
  "applyUpdates u it = it\<lparr>
     status := orElse (u_status u) (status it),
     progress := orElse (u_progress u) (progress it),
     error := orElse (u_error u) (error it),
     speed := orElse (u_speed u) (speed it),
     eta := orElse (u_eta u) (eta it),
     pid := orElse (u_pid u) (pid it),
     downloadPath := orElse (u_downloadPath u) (downloadPath it),
     extractProgress := orElse (u_extractProgress u) (extractProgress it)\<rparr>"

record VrpConfig =
  baseUri :: "string option"
  password :: "string option"

text \<open>
  \<^verbatim>\<open>DownloadController\<close>: the \<^verbatim>\<open>cancel\<close> closure flips one cancellation token; the
  controller holds the address of that cell in the store \<open>cancelled\<close> below, and the handle of
  the mount process when there is one.
\<close>

record DownloadController =
  cancelToken :: nat
  mountProcess :: "nat option"

datatype OpenFlag = FlagA | FlagW

text \<open>What the processor does to the outside world, in the order it does it.\<close>

datatype Effect =
    MkDir string
  | Spawn string "string list"
  | Exec string "string list"
  | Sleep nat
  | ReadDir string
  | Kill nat
  | RmDir string
  | EmitUpdate
  | OpenRead string nat
  | OpenWrite string OpenFlag
  | Destroy string
  | SetTimeout nat

text \<open>
  The state the processor works on: its own fields (\<^verbatim>\<open>vrpConfig\<close>, \<^verbatim>\<open>activeDownloads\<close>), the
  items the queue manager holds, the cancellation tokens (one boolean cell per address), the
  sizes of the files of the destination tree, and the effects performed so far.
\<close>

record State =
  vrpConfig :: "VrpConfig option"
  activeDownloads :: "string \<rightharpoonup> DownloadController"
  queue :: "string \<rightharpoonup> DownloadItem"
  cancelled :: "nat \<Rightarrow> bool"
  nextToken :: nat
  disk :: "string \<rightharpoonup> nat"
  effects :: "Effect list"

definition emit :: "Effect \<Rightarrow> State \<Rightarrow> State" where
  "emit e s = s\<lparr>effects := effects s @ [e]\<rparr>"

text \<open>
  Modelled from the spec: the queue manager (\<^verbatim>\<open>./queueManager\<close>) is not part of the sources at
  hand. \<^verbatim>\<open>findItem(key)\<close> gives the item or nothing; \<^verbatim>\<open>updateItem(key, partialFields)\<close> writes
  the given fields over the item of that key and tells whether there was one.
\<close>

definition findItem :: "string \<Rightarrow> State \<Rightarrow> DownloadItem option" where
  "findItem key s = queue s key"

definition updateItem :: "string \<Rightarrow> ItemUpdates \<Rightarrow> State \<Rightarrow> bool \<times> State" where
  "updateItem key updates s =
     (case queue s key of
        None \<Rightarrow> (False, s)
      | Some it \<Rightarrow> (True, s\<lparr>queue := (queue s)(key \<mapsto> applyUpdates updates it)\<rparr>))"

text \<open>JavaScript truthiness of an optional string, and \<^verbatim>\<open>a || b\<close> on optional strings.\<close>

definition truthy :: "string option \<Rightarrow> bool" where
  "truthy x = (case x of None \<Rightarrow> False | Some v \<Rightarrow> v \<noteq> [])"

definition js_or :: "string option \<Rightarrow> string option \<Rightarrow> string option" where
  "js_or a b = (if truthy a then a else b)"

section \<open>The download processor\<close>

subsection \<open>updateItemStatus\<close>

definition updateItemStatus ::
  "string \<Rightarrow> DownloadStatus \<Rightarrow> nat \<Rightarrow> string option \<Rightarrow> string option \<Rightarrow> string option \<Rightarrow>
   nat option \<Rightarrow> State \<Rightarrow> State" where
  "updateItemStatus name st prog err spd et extractProg s =
     (let updates = noUpdates\<lparr>u_status := Some st, u_progress := Some prog,
                      u_error := Some err, u_speed := Some spd, u_eta := Some et\<rparr>;
          updates = (if extractProg \<noteq> None then updates\<lparr>u_extractProgress := Some extractProg\<rparr>
                     else if st \<noteq> Extracting \<and> st \<noteq> Completed
                          then updates\<lparr>u_extractProgress := Some None\<rparr>
                     else updates);
          (updated, s1) = updateItem name updates s
      in if updated then emit EmitUpdate s1 else s1)"

subsection \<open>cancelDownload\<close>

text \<open>
  The first half of \<^verbatim>\<open>cancelDownload\<close> and of \<^verbatim>\<open>pauseDownload\<close>: flip the token of the
  registered controller, signal the mount process, drop the registry entry.
\<close>

definition stopController :: "string \<Rightarrow> State \<Rightarrow> State" where
  "stopController name s =
     (case activeDownloads s name of
        Some downloadController \<Rightarrow>
          let s1 = s\<lparr>cancelled := (cancelled s)(cancelToken downloadController := True)\<rparr>;
              s2 = (case mountProcess downloadController of
                      Some p \<Rightarrow> emit (Kill p) s1
                    | None \<Rightarrow> s1)
          in s2\<lparr>activeDownloads := (activeDownloads s2)(name := None)\<rparr>
      | None \<Rightarrow> s)"

definition cancelUpdates :: "DownloadItem \<Rightarrow> DownloadStatus \<Rightarrow> string option \<Rightarrow> ItemUpdates" where
  "cancelUpdates item finalStatus errorMsg =
     (let updates = noUpdates\<lparr>u_pid := Some None\<rparr>;
          updates = (if \<not> (status item = Error \<and> finalStatus = Cancelled)
                     then updates\<lparr>u_status := Some finalStatus\<rparr> else updates);
          updates = (if finalStatus = Cancelled then updates\<lparr>u_progress := Some 0\<rparr> else updates)
      in if finalStatus = Error
         then updates\<lparr>u_error := Some (js_or errorMsg (error item))\<rparr>
         else updates\<lparr>u_error := Some None\<rparr>)"

definition cancelDownload :: "string \<Rightarrow> DownloadStatus \<Rightarrow> string option \<Rightarrow> State \<Rightarrow> State" where
  "cancelDownload name finalStatus errorMsg s =
     (let s1 = stopController name s
      in case findItem name s1 of
           Some item \<Rightarrow>
             (let (updated, s2) = updateItem name (cancelUpdates item finalStatus errorMsg) s1
              in if updated then emit EmitUpdate s2 else s2)
         | None \<Rightarrow> s1)"

subsection \<open>pauseDownload, isDownloadActive\<close>

definition pauseDownload :: "string \<Rightarrow> State \<Rightarrow> State" where
  "pauseDownload name s =
     (let s1 = stopController name s
      in case findItem name s1 of
           Some item \<Rightarrow>
             (let (updated, s2) =
                    updateItem name (noUpdates\<lparr>u_status := Some Paused, u_pid := Some None\<rparr>) s1
              in if updated then emit EmitUpdate s2 else s2)
         | None \<Rightarrow> s1)"

definition isDownloadActive :: "string \<Rightarrow> State \<Rightarrow> bool" where
  "isDownloadActive name s = (activeDownloads s name \<noteq> None)"

section \<open>The environment of an attempt\<close>

text \<open>
  A value thrown inside the attempt: an \<^verbatim>\<open>Error\<close> with its message, an \<^verbatim>\<open>ExecaError\<close> with
  its \<^verbatim>\<open>shortMessage\<close>, \<^verbatim>\<open>message\<close> and \<^verbatim>\<open>exitCode\<close>, or any other value, kept as the text
  \<^verbatim>\<open>String(error)\<close> gives.
\<close>

datatype JsError =
    PlainError string
  | ExecaError string string "nat option"
  | OtherThrown string

datatype 'a Promise = Resolved 'a | Rejected JsError | Pending

text \<open>
  The mounted tree as \<^verbatim>\<open>readdir\<close> and \<^verbatim>\<open>stat\<close> show it: a file with the size \<^verbatim>\<open>stat\<close> gives or
  the error it throws, a directory with its entries or the error \<^verbatim>\<open>readdir\<close> throws.
\<close>

datatype FsNode =
    File "JsError + nat"
  | Dir "JsError + (string \<times> FsNode) list"

record FileDesc =
  relativePath :: string
  fileSize :: nat

text \<open>
  What the read stream of one copy delivers, in order: a chunk (its length, and the clock
  \<^verbatim>\<open>Date.now()\<close> shows when it is handled) or an error of either stream. The end of the list
  is the end of the source file.
\<close>

datatype StreamEvent =
    Data nat nat
  | ReadError JsError
  | WriteError JsError

datatype Platform = Linux | Darwin | Win32 | OtherPlatform

text \<open>The places where the attempt awaits, and other tasks of the event loop may run.\<close>

datatype AwaitPoint =
    AwaitMkdir
  | AwaitDiskSpace
  | AwaitMirror
  | AwaitSleep nat
  | AwaitPoll nat
  | AwaitVerify
  | AwaitEnumerate
  | AwaitExisting nat
  | AwaitFileMkdir nat
  | AwaitFileStat nat
  | AwaitChunk nat nat
  | AwaitFileEnd nat
  | AwaitUnmount
  | AwaitRmdir

text \<open>
  Everything the attempt gets from outside: the services it consults, the answers of the file
  system and of the mount, time, and what other tasks do to the shared state while the attempt
  awaits (\<open>interfere\<close>). The Node library function \<^verbatim>\<open>path.join\<close> and the MD5 digest are
  parameters, and so is the arithmetic on doubles behind the progress figures
  (\<^verbatim>\<open>Math.round((a / b) * 100)\<close>, speed and ETA texts).
  \<open>parseSizeToBytes\<close>, \<open>formatBytes\<close> and \<open>availableSpace\<close> stand for the functions of
  \<^verbatim>\<open>./utils\<close>, which is not part of the sources at hand.
\<close>

record Env =
  rclonePath :: "string option"
  tmpdir :: string
  now :: nat
  platform :: Platform
  pjoin :: "string \<Rightarrow> string \<Rightarrow> string"
  md5hex :: "string \<Rightarrow> string"
  mkdirError :: "string \<Rightarrow> JsError option"
  availableSpace :: "string \<Rightarrow> nat option"
  parseSizeToBytes :: "string \<Rightarrow> nat"
  formatBytes :: "nat \<Rightarrow> string"
  activeMirror :: "string option"
  activeMirrorConfigPath :: "string option"
  activeMirrorRemoteName :: "string option"
  spawnHandle :: nat
  readdirPoll :: "nat \<Rightarrow> string list option"
  readdirVerify :: "string list option"
  mountTree :: "JsError + (string \<times> FsNode) list"
  streamEvents :: "nat \<Rightarrow> StreamEvent list"
  copyStartTime :: "nat \<Rightarrow> nat"
  startTime :: nat
  downloadSpeedLimit :: nat
  roundPercent :: "nat \<Rightarrow> nat \<Rightarrow> nat"
  speedText :: "int \<Rightarrow> int \<Rightarrow> string"
  etaText :: "int \<Rightarrow> int \<Rightarrow> int \<Rightarrow> string"
  interfere :: "AwaitPoint \<Rightarrow> State \<Rightarrow> State"

text \<open>
  Other tasks run at an await point and may change the shared state at will; the effect log
  keeps recording this attempt only.
\<close>

definition otherTasks :: "Env \<Rightarrow> AwaitPoint \<Rightarrow> State \<Rightarrow> State" where
  "otherTasks env p s = (interfere env p s)\<lparr>effects := effects s\<rparr>"

subsection \<open>getFilesRecursively\<close>

text \<open>\<^verbatim>\<open>s.replace(pat, '')\<close> with a string pattern: the first occurrence of \<open>pat\<close> is removed.\<close>

fun replaceFirst :: "string \<Rightarrow> string \<Rightarrow> string" where
  "replaceFirst pat [] = []"
| "replaceFirst pat (c # cs) =
     (if take (length pat) (c # cs) = pat then drop (length pat) (c # cs)
      else c # replaceFirst pat cs)"

definition relativePathOf :: "string \<Rightarrow> string \<Rightarrow> string" where
  "relativePathOf fullPath currentBase =
     replaceFirst currentBase
       (replaceFirst (currentBase @ [CHR 0x5C])
          (replaceFirst (currentBase @ ''/'') fullPath))"

text \<open>
  The loop over the entries of \<open>dir\<close>. A subdirectory is entered with \<open>currentBase\<close> as its
  \<^verbatim>\<open>baseDir\<close>, where \<^verbatim>\<open>baseDir || dir\<close> takes the subdirectory's own path when the base is the
  empty string.
\<close>

function getFilesLoop ::
  "(string \<Rightarrow> string \<Rightarrow> string) \<Rightarrow> string \<Rightarrow> string \<Rightarrow> (string \<times> FsNode) list \<Rightarrow>
   JsError + FileDesc list" where
  "getFilesLoop j dir currentBase [] = Inr []"
| "getFilesLoop j dir currentBase ((name, Dir (Inl e)) # rest) = Inl e"
| "getFilesLoop j dir currentBase ((name, Dir (Inr sub)) # rest) =
     (let fullPath = j dir name
      in case getFilesLoop j fullPath (if currentBase = [] then fullPath else currentBase) sub of
           Inl e \<Rightarrow> Inl e
         | Inr subFiles \<Rightarrow>
             (case getFilesLoop j dir currentBase rest of
                Inl e \<Rightarrow> Inl e
              | Inr files \<Rightarrow> Inr (subFiles @ files)))"
| "getFilesLoop j dir currentBase ((name, File (Inl e)) # rest) = Inl e"
| "getFilesLoop j dir currentBase ((name, File (Inr sz)) # rest) =
     (let relPath = relativePathOf (j dir name) currentBase
      in case getFilesLoop j dir currentBase rest of
           Inl e \<Rightarrow> Inl e
         | Inr files \<Rightarrow>
             Inr (\<lparr>relativePath = (if relPath \<noteq> [] then relPath else name), fileSize = sz\<rparr>
                  # files))"
  by pat_completeness auto
termination
  by (relation "measure (\<lambda>(j, dir, base, es). size_list (size_prod (\<lambda>_. 0) size) es)") auto

definition getFilesRecursively ::
  "(string \<Rightarrow> string \<Rightarrow> string) \<Rightarrow> string \<Rightarrow> string option \<Rightarrow>
   JsError + (string \<times> FsNode) list \<Rightarrow> JsError + FileDesc list" where
  "getFilesRecursively j dir baseDir listing =
     (let currentBase = (if truthy baseDir then the baseDir else dir)
      in case listing of
           Inl e \<Rightarrow> Inl e
         | Inr entries \<Rightarrow> getFilesLoop j dir currentBase entries)"

text \<open>Entry names as a file system gives them: never empty, at any depth.\<close>

function namesNonEmpty :: "(string \<times> FsNode) list \<Rightarrow> bool" where
  "namesNonEmpty [] = True"
| "namesNonEmpty ((name, Dir (Inl e)) # rest) = (name \<noteq> [] \<and> namesNonEmpty rest)"
| "namesNonEmpty ((name, Dir (Inr sub)) # rest) =
     (name \<noteq> [] \<and> namesNonEmpty sub \<and> namesNonEmpty rest)"
| "namesNonEmpty ((name, File r) # rest) = (name \<noteq> [] \<and> namesNonEmpty rest)"
  by pat_completeness auto
termination
  by (relation "measure (size_list (size_prod (\<lambda>_. 0) size))") auto

subsection \<open>cleanup\<close>

definition unmountCommand :: "Platform \<Rightarrow> string \<Rightarrow> Effect option" where
  "unmountCommand pf mountPoint =
     (case pf of
        Linux \<Rightarrow> Some (Exec ''fusermount'' [''-u'', mountPoint])
      | Darwin \<Rightarrow> Some (Exec ''umount'' [mountPoint])
      | Win32 \<Rightarrow> Some (Exec ''taskkill'' [''/F'', ''/IM'', ''rclone.exe''])
      | OtherPlatform \<Rightarrow> None)"

text \<open>
  Each step is attempted whatever became of the one before: the signal to the mount process
  registered under the name, the unmount command of the platform, the removal of the mount
  point directory.
\<close>

definition cleanup :: "Env \<Rightarrow> string \<Rightarrow> string option \<Rightarrow> State \<Rightarrow> State" where
  "cleanup env mountPoint name s =
     (let s1 = (if truthy name
                then (case activeDownloads s (the name) of
                        Some downloadController \<Rightarrow>
                          (case mountProcess downloadController of
                             Some p \<Rightarrow> emit (Kill p) s
                           | None \<Rightarrow> s)
                      | None \<Rightarrow> s)
                else s);
          s2 = (case unmountCommand (platform env) mountPoint of
                  Some cmd \<Rightarrow> otherTasks env AwaitUnmount (emit cmd s1)
                | None \<Rightarrow> s1)
      in otherTasks env AwaitRmdir (emit (RmDir mountPoint) s2))"

subsection \<open>copyFileWithProgress\<close>

record CopyVars =
  copiedBytes :: nat
  bytesInSecond :: nat
  lastProgressTime :: nat

definition writeChunk :: "string \<Rightarrow> nat \<Rightarrow> State \<Rightarrow> State" where
  "writeChunk destPath len s =
     s\<lparr>disk := (disk s)(destPath \<mapsto> (case disk s destPath of None \<Rightarrow> len | Some n \<Rightarrow> n + len))\<rparr>"

text \<open>
  The handlers of the two streams, run over the events in order. A chunk that finds the token
  tripped destroys both streams and returns: nothing resolves or rejects the promise after
  that, since \<^verbatim>\<open>resolve\<close> is called on \<^verbatim>\<open>finish\<close> only and \<^verbatim>\<open>reject\<close> on \<^verbatim>\<open>error\<close> only.
  Otherwise the chunk is counted, progress is reported, and the pipe writes the chunk to the
  destination. When the bandwidth limit is exceeded the report is handed to a timer instead
  (\<open>SetTimeout\<close>, with the delay in whole milliseconds); the timer's callback runs as another
  task of the event loop, so it is among what \<open>interfere\<close> stands for. When the source ends,
  the write stream is ended and its \<^verbatim>\<open>finish\<close> resolves the promise with the bytes copied
  by this call.
\<close>

fun copyEvents ::
  "Env \<Rightarrow> nat \<Rightarrow> nat \<Rightarrow> (nat \<Rightarrow> nat \<Rightarrow> State \<Rightarrow> State) \<Rightarrow> string \<Rightarrow> string \<Rightarrow> nat \<Rightarrow> nat \<Rightarrow>
   StreamEvent list \<Rightarrow> CopyVars \<Rightarrow> State \<Rightarrow> nat Promise \<times> State" where
  "copyEvents env fileIdx tok onProgress sourcePath destPath startOffset k [] v s =
     (Resolved (copiedBytes v - startOffset), otherTasks env (AwaitFileEnd fileIdx) s)"
| "copyEvents env fileIdx tok onProgress sourcePath destPath startOffset k (ReadError e # evs) v s =
     (Rejected e, emit (Destroy destPath) (otherTasks env (AwaitChunk fileIdx k) s))"
| "copyEvents env fileIdx tok onProgress sourcePath destPath startOffset k (WriteError e # evs) v s =
     (Rejected e, emit (Destroy sourcePath) (otherTasks env (AwaitChunk fileIdx k) s))"
| "copyEvents env fileIdx tok onProgress sourcePath destPath startOffset k (Data len clock # evs) v s =
     (let s0 = otherTasks env (AwaitChunk fileIdx k) s
      in if cancelled s0 tok
         then (Pending, emit (Destroy destPath) (emit (Destroy sourcePath) s0))
         else
           let copied = copiedBytes v + len;
               inSecond = bytesInSecond v + len
           in if 0 < downloadSpeedLimit env \<and> 1000 \<le> clock - lastProgressTime v
              then
                let maxBytesPerSecond = downloadSpeedLimit env * 1024;
                    s1 = (if maxBytesPerSecond < inSecond
                          then emit (SetTimeout (inSecond * 1000 div maxBytesPerSecond - 1000)) s0
                          else onProgress (copied - startOffset) clock s0)
                in copyEvents env fileIdx tok onProgress sourcePath destPath startOffset (Suc k) evs
                     \<lparr>copiedBytes = copied, bytesInSecond = 0, lastProgressTime = clock\<rparr>
                     (writeChunk destPath len s1)
              else copyEvents env fileIdx tok onProgress sourcePath destPath startOffset (Suc k) evs
                     \<lparr>copiedBytes = copied, bytesInSecond = inSecond,
                      lastProgressTime = lastProgressTime v\<rparr>
                     (writeChunk destPath len (onProgress (copied - startOffset) clock s0)))"

definition openFlag :: "nat \<Rightarrow> OpenFlag" where
  "openFlag startOffset = (if 0 < startOffset then FlagA else FlagW)"

definition openDest :: "string \<Rightarrow> OpenFlag \<Rightarrow> State \<Rightarrow> State" where
  "openDest destPath flag s =
     (case flag of
        FlagW \<Rightarrow> s\<lparr>disk := (disk s)(destPath \<mapsto> 0)\<rparr>
      | FlagA \<Rightarrow> s\<lparr>disk := (disk s)(destPath \<mapsto> orElse (disk s destPath) 0)\<rparr>)"

definition copyFileWithProgress ::
  "Env \<Rightarrow> nat \<Rightarrow> string \<Rightarrow> string \<Rightarrow> nat \<Rightarrow> (nat \<Rightarrow> nat \<Rightarrow> State \<Rightarrow> State) \<Rightarrow> nat \<Rightarrow> State \<Rightarrow>
   nat Promise \<times> State" where
  "copyFileWithProgress env fileIdx sourcePath destPath startOffset onProgress tok s =
     (let s1 = emit (OpenRead sourcePath startOffset) s;
          s2 = openDest destPath (openFlag startOffset)
                 (emit (OpenWrite destPath (openFlag startOffset)) s1)
      in copyEvents env fileIdx tok onProgress sourcePath destPath startOffset 0
           (streamEvents env fileIdx)
           \<lparr>copiedBytes = startOffset, bytesInSecond = 0,
            lastProgressTime = copyStartTime env fileIdx\<rparr> s2)"

subsection \<open>startMountBasedDownload\<close>

record AttemptResult =
  success :: bool
  startExtraction :: bool
  finalState :: "DownloadItem option"

datatype Outcome = Returned AttemptResult | Threw JsError | NeverSettles

datatype LoopOutcome = LoopDone | LoopCancelled | LoopThrew JsError | LoopPending

definition failed :: AttemptResult where
  "failed = \<lparr>success = False, startExtraction = False, finalState = None\<rparr>"

definition configMissing :: "VrpConfig option \<Rightarrow> bool" where
  "configMissing cfg =
     (case cfg of None \<Rightarrow> True | Some c \<Rightarrow> \<not> truthy (baseUri c) \<or> \<not> truthy (password c))"

definition gameSizeBytes :: "Env \<Rightarrow> DownloadItem \<Rightarrow> nat" where
  "gameSizeBytes env item =
     (case size_text item of
        Some t \<Rightarrow> if t \<noteq> [] then parseSizeToBytes env t else 0
      | None \<Rightarrow> 0)"

text \<open>The disk-space condition of the mount-based attempt.\<close>

definition insufficientSpace :: "nat option \<Rightarrow> nat \<Rightarrow> bool" where
  "insufficientSpace available requiredSpace =
     (available \<noteq> None \<and> 0 < requiredSpace \<and> the available < requiredSpace)"

definition insufficientMessage :: "Env \<Rightarrow> nat \<Rightarrow> nat \<Rightarrow> string" where
  "insufficientMessage env requiredSpace available =
     ''Insufficient disk space. Required: '' @ formatBytes env requiredSpace @
     '', Available: '' @ formatBytes env available"

definition clearPid :: "string \<Rightarrow> State \<Rightarrow> State" where
  "clearPid name s = snd (updateItem name (noUpdates\<lparr>u_pid := Some None\<rparr>) s)"

definition unregister :: "string \<Rightarrow> State \<Rightarrow> State" where
  "unregister name s = s\<lparr>activeDownloads := (activeDownloads s)(name := None)\<rparr>"

text \<open>The decimal digits of a number, as \<^verbatim>\<open>Date.now()\<close> is printed in the mount point's name.\<close>

fun showNat :: "nat \<Rightarrow> string" where
  "showNat n =
     (if n < 10 then [''0123456789'' ! n]
      else showNat (n div 10) @ [''0123456789'' ! (n mod 10)])"

declare showNat.simps [simp del]

definition sanitizeChar :: "char \<Rightarrow> char" where
  "sanitizeChar c =
     (if c \<in> set (''abcdefghijklmnopqrstuvwxyz'' @ ''ABCDEFGHIJKLMNOPQRSTUVWXYZ'' @ ''0123456789-'')
      then c else CHR ''_'')"

definition mountPointOf :: "Env \<Rightarrow> string \<Rightarrow> string" where
  "mountPointOf env name =
     pjoin env (tmpdir env)
       (''apprenticevr-mount-'' @ map sanitizeChar name @ ''-'' @ showNat (now env))"

record MirrorConfig =
  configFilePath :: string
  remoteName :: string

definition mountArgs :: "Env \<Rightarrow> State \<Rightarrow> string \<Rightarrow> MirrorConfig option \<Rightarrow> string \<Rightarrow> string list" where
  "mountArgs env s name mirrorConfig mountPoint =
     (case mirrorConfig of
        Some m \<Rightarrow>
          [''mount'', remoteName m @ '':/Quest Games/'' @ name, mountPoint,
           ''--config'', configFilePath m, ''--no-check-certificate'', ''--read-only'',
           ''--vfs-cache-mode'', ''minimal'', ''--vfs-read-ahead'', ''128M'']
      | None \<Rightarrow>
          [''mount'', '':http:/'' @ md5hex env (name @ [CHR 0x0A]), mountPoint,
           ''--config'', (if platform env = Win32 then ''NUL'' else ''/dev/null''),
           ''--http-url'', orElse (case vrpConfig s of None \<Rightarrow> None | Some c \<Rightarrow> baseUri c) [],
           ''--no-check-certificate'', ''--read-only'',
           ''--vfs-cache-mode'', ''minimal'', ''--vfs-read-ahead'', ''128M''])"

text \<open>The readiness loop: up to ten rounds of a one-second sleep and a listing of the mount point.\<close>

function waitForMount :: "Env \<Rightarrow> string \<Rightarrow> nat \<Rightarrow> State \<Rightarrow> bool \<times> State" where
  "waitForMount env mountPoint i s =
     (if i < 10
      then
        let s1 = otherTasks env (AwaitSleep i) (emit (Sleep 1000) s);
            s2 = otherTasks env (AwaitPoll i) (emit (ReadDir mountPoint) s1)
        in case readdirPoll env i of
             Some testRead \<Rightarrow>
               if 0 \<le> length testRead then (True, s2)
               else waitForMount env mountPoint (Suc i) s2
           | None \<Rightarrow> waitForMount env mountPoint (Suc i) s2
      else (False, s))"
  by pat_completeness auto
termination
  by (relation "measure (\<lambda>(env, mountPoint, i, s). 10 - i)") auto

declare waitForMount.simps [simp del]

text \<open>The bytes already at the destination, summed over the enumerated files before the loop.\<close>

fun existingBytes :: "Env \<Rightarrow> string \<Rightarrow> FileDesc list \<Rightarrow> nat \<Rightarrow> nat \<Rightarrow> State \<Rightarrow> nat \<times> State" where
  "existingBytes env dlPath [] i totalCopied s = (totalCopied, s)"
| "existingBytes env dlPath (file # rest) i totalCopied s =
     (let destPath = pjoin env dlPath (relativePath file);
          total = (case disk s destPath of Some n \<Rightarrow> totalCopied + n | None \<Rightarrow> totalCopied)
      in existingBytes env dlPath rest (Suc i) total (otherTasks env (AwaitExisting i) s))"

text \<open>The progress callback the loop hands to the copy of one file.\<close>

definition onProgress ::
  "Env \<Rightarrow> string \<Rightarrow> nat \<Rightarrow> nat \<Rightarrow> nat \<Rightarrow> nat \<Rightarrow> nat \<Rightarrow> State \<Rightarrow> State" where
  "onProgress env name totalSize totalCopied startOffset progressBytes clock s =
     (let fileProgress = totalCopied + progressBytes;
          overallProgress = roundPercent env fileProgress totalSize;
          elapsed = int clock - int (startTime env);
          moved = int fileProgress - int startOffset;
          remaining = int totalSize - int fileProgress
      in updateItemStatus name Downloading overallProgress None
           (Some (speedText env moved elapsed)) (Some (etaText env remaining moved elapsed))
           None s)"

text \<open>
  The resume offset of one file: the size \<^verbatim>\<open>stat\<close> gives for the destination, or 0 when
  \<^verbatim>\<open>stat\<close> throws.
\<close>

definition resumeOffset :: "State \<Rightarrow> string \<Rightarrow> nat" where
  "resumeOffset s destPath = (case disk s destPath of Some n \<Rightarrow> n | None \<Rightarrow> 0)"

text \<open>One round of the loop, from the paths to the awaited copy.\<close>

definition downloadFile ::
  "Env \<Rightarrow> string \<Rightarrow> string \<Rightarrow> string \<Rightarrow> nat \<Rightarrow> nat \<Rightarrow> nat \<Rightarrow> FileDesc \<Rightarrow> nat \<Rightarrow> State \<Rightarrow>
   nat Promise \<times> State" where
  "downloadFile env name mountPoint dlPath tok totalSize i file totalCopied s =
     (let sourcePath = pjoin env mountPoint (relativePath file);
          destPath = pjoin env dlPath (relativePath file);
          destDir = pjoin env destPath ''..'';
          s1 = emit (MkDir destDir) s
      in case mkdirError env destDir of
           Some e \<Rightarrow> (Rejected e, s1)
         | None \<Rightarrow>
             let s2 = otherTasks env (AwaitFileMkdir i) s1;
                 startOffset = resumeOffset s2 destPath;
                 s3 = otherTasks env (AwaitFileStat i) s2
             in copyFileWithProgress env i sourcePath destPath startOffset
                  (onProgress env name totalSize totalCopied startOffset) tok s3)"

fun downloadFiles ::
  "Env \<Rightarrow> string \<Rightarrow> string \<Rightarrow> string \<Rightarrow> nat \<Rightarrow> nat \<Rightarrow> FileDesc list \<Rightarrow> nat \<Rightarrow> nat \<Rightarrow> State \<Rightarrow>
   LoopOutcome \<times> State" where
  "downloadFiles env name mountPoint dlPath tok totalSize [] i totalCopied s = (LoopDone, s)"
| "downloadFiles env name mountPoint dlPath tok totalSize (file # rest) i totalCopied s =
     (if (case findItem name s of None \<Rightarrow> True | Some cur \<Rightarrow> status cur \<noteq> Downloading)
         \<or> cancelled s tok
      then (LoopCancelled, s)
      else
        case downloadFile env name mountPoint dlPath tok totalSize i file totalCopied s of
          (Resolved bytesCopied, s1) \<Rightarrow>
            if cancelled s1 tok then (LoopCancelled, s1)
            else downloadFiles env name mountPoint dlPath tok totalSize rest (Suc i)
                   (totalCopied + bytesCopied) s1
        | (Rejected e, s1) \<Rightarrow> (LoopThrew e, s1)
        | (Pending, s1) \<Rightarrow> (LoopPending, s1))"

text \<open>
  After the loop: a cancelled download drops its registry entry and returns; otherwise the
  item is read once more, and the attempt succeeds when it is still \<open>Downloading\<close>.
\<close>

definition finishAttempt ::
  "Env \<Rightarrow> string \<Rightarrow> string \<Rightarrow> bool \<Rightarrow> State \<Rightarrow> AttemptResult \<times> State" where
  "finishAttempt env name mountPoint downloadCancelled s =
     (if downloadCancelled
      then
        let s1 = unregister name s
        in (\<lparr>success = False, startExtraction = False, finalState = findItem name s1\<rparr>, s1)
      else
        let finalItemState = findItem name s
        in if (case finalItemState of None \<Rightarrow> True | Some it \<Rightarrow> status it \<noteq> Downloading)
           then
             let s1 = cleanup env mountPoint (Some name) s;
                 s2 = (if activeDownloads s1 name \<noteq> None then clearPid name (unregister name s1)
                       else s1)
             in (\<lparr>success = False, startExtraction = False, finalState = finalItemState\<rparr>, s2)
           else
             let s1 = clearPid name (unregister name s);
                 s2 = cleanup env mountPoint (Some name) s1
             in (\<lparr>success = True, startExtraction = True, finalState = finalItemState\<rparr>, s2))"

text \<open>
  Totals, the progress already on disk, and the registration of a fresh cancellation token
  with the mount process under the item's name. The result is the total size, the bytes
  already copied, the address of the token and the state.
\<close>

definition registerAttempt ::
  "Env \<Rightarrow> string \<Rightarrow> string \<Rightarrow> nat \<Rightarrow> FileDesc list \<Rightarrow> State \<Rightarrow> nat \<times> nat \<times> nat \<times> State" where
  "registerAttempt env name dlPath proc filesToDownload s =
     (let totalSize = sum_list (map fileSize filesToDownload);
          (totalCopied, s1) = existingBytes env dlPath filesToDownload 0 0 s;
          s2 = (if 0 < totalCopied
                then updateItemStatus name Downloading (roundPercent env totalCopied totalSize)
                       None None None None s1
                else s1);
          tok = nextToken s2;
          s3 = s2\<lparr>cancelled := (cancelled s2)(tok := False), nextToken := Suc tok,
                  activeDownloads :=
                    (activeDownloads s2)(name \<mapsto> \<lparr>cancelToken = tok, mountProcess = Some proc\<rparr>)\<rparr>
      in (totalSize, totalCopied, tok, s3))"

definition transferFiles :: "Env \<Rightarrow> string \<Rightarrow> string \<Rightarrow> string \<Rightarrow> nat \<Rightarrow> State \<Rightarrow> Outcome \<times> State" where
  "transferFiles env name mountPoint dlPath proc s =
     (case getFilesRecursively (pjoin env) mountPoint None (mountTree env) of
        Inl e \<Rightarrow> (Threw e, s)
      | Inr filesToDownload \<Rightarrow>
          (let (totalSize, totalCopied, tok, s1) =
                 registerAttempt env name dlPath proc filesToDownload
                   (otherTasks env AwaitEnumerate s)
           in (case downloadFiles env name mountPoint dlPath tok totalSize filesToDownload 0
                      totalCopied s1 of
                 (LoopPending, s2) \<Rightarrow> (NeverSettles, s2)
               | (LoopThrew e, s2) \<Rightarrow> (Threw e, s2)
               | (LoopCancelled, s2) \<Rightarrow>
                   (let (r, s3) = finishAttempt env name mountPoint True s2 in (Returned r, s3))
               | (LoopDone, s2) \<Rightarrow>
                   (let (r, s3) = finishAttempt env name mountPoint (cancelled s2 tok) s2
                    in (Returned r, s3)))))"

definition verifyMount :: "Env \<Rightarrow> string \<Rightarrow> string \<Rightarrow> string \<Rightarrow> nat \<Rightarrow> State \<Rightarrow> Outcome \<times> State" where
  "verifyMount env name mountPoint dlPath proc s =
     (let s1 = otherTasks env AwaitVerify (emit (ReadDir mountPoint) s)
      in if (case readdirVerify env of None \<Rightarrow> True | Some mountContents \<Rightarrow> length mountContents = 0)
         then
           let s2 = updateItemStatus name Error 0 (Some ''Failed to access mounted directory'')
                      None None None s1
           in (Returned failed, cleanup env mountPoint (Some name) s2)
         else transferFiles env name mountPoint dlPath proc s1)"

text \<open>
  The \<^verbatim>\<open>try\<close> block. The public endpoint reads \<^verbatim>\<open>this.vrpConfig.baseUri\<close> after several
  awaits; when the configuration has been set to \<^verbatim>\<open>null\<close> meanwhile, that read throws.
\<close>

definition attemptBody ::
  "Env \<Rightarrow> DownloadItem \<Rightarrow> MirrorConfig option \<Rightarrow> string \<Rightarrow> string \<Rightarrow> string \<Rightarrow> State \<Rightarrow>
   Outcome \<times> State" where
  "attemptBody env item mirrorConfig rclone dlPath mountPoint s =
     (let name = releaseName item;
          s1 = emit (MkDir dlPath) s;
          s2 = emit (MkDir mountPoint) (otherTasks env AwaitMkdir s1);
          s3 = otherTasks env AwaitDiskSpace (otherTasks env AwaitMkdir s2);
          available = availableSpace env (downloadPath item);
          requiredSpace = gameSizeBytes env item * 2
      in if mkdirError env dlPath \<noteq> None then (Threw (the (mkdirError env dlPath)), s1)
         else if mkdirError env mountPoint \<noteq> None then (Threw (the (mkdirError env mountPoint)), s2)
         else if insufficientSpace available requiredSpace
         then
           (let s4 = updateItemStatus name Error 0
                       (Some (insufficientMessage env requiredSpace (the available)))
                       None None None s3
            in (Returned failed, cleanup env mountPoint (Some name) s4))
         else
           (let s4 = updateItemStatus name Downloading 0 None None None None s3;
                s5 = emit (Spawn rclone (mountArgs env s4 name mirrorConfig mountPoint)) s4;
                ready = waitForMount env mountPoint 0 s5
            in if mirrorConfig = None \<and> vrpConfig s4 = None
               then (Threw (PlainError ''Cannot read properties of null''), s4)
               else if \<not> fst ready
               then (Threw (PlainError ''Mount failed to become ready within 10 seconds''),
                     snd ready)
               else verifyMount env name mountPoint dlPath (spawnHandle env) (snd ready)))"

definition errorText :: "JsError \<Rightarrow> string" where
  "errorText err =
     (case err of
        ExecaError shortMessage message exitCode \<Rightarrow>
          if shortMessage \<noteq> [] then shortMessage else message
      | PlainError message \<Rightarrow> message
      | OtherThrown text \<Rightarrow> text)"

definition killedByTerm :: "JsError \<Rightarrow> bool" where
  "killedByTerm err =
     (case err of ExecaError shortMessage message exitCode \<Rightarrow> exitCode = Some 143 | _ \<Rightarrow> False)"

text \<open>The \<^verbatim>\<open>catch\<close> block.\<close>

definition attemptFailed ::
  "Env \<Rightarrow> string \<Rightarrow> string \<Rightarrow> JsError \<Rightarrow> State \<Rightarrow> AttemptResult \<times> State" where
  "attemptFailed env name mountPoint err s =
     (let currentItemState = findItem name s;
          statusBeforeCatch = map_option status currentItemState;
          s1 = cleanup env mountPoint (Some name) s;
          s2 = (if activeDownloads s1 name \<noteq> None then clearPid name (unregister name s1) else s1)
      in if killedByTerm err
         then (\<lparr>success = False, startExtraction = False, finalState = currentItemState\<rparr>, s2)
         else
           let errorMessage = take 500 (errorText err);
               s3 = (if statusBeforeCatch \<noteq> Some Cancelled \<and> statusBeforeCatch \<noteq> Some Error
                     then updateItemStatus name Error
                            (case currentItemState of Some it \<Rightarrow> progress it | None \<Rightarrow> 0)
                            (Some errorMessage) None None None s2
                     else s2)
           in (\<lparr>success = False, startExtraction = False, finalState = findItem name s3\<rparr>, s3))"

text \<open>
  The result is \<open>None\<close> when the promise of the attempt never settles.
\<close>

definition startMountBasedDownload ::
  "Env \<Rightarrow> DownloadItem \<Rightarrow> MirrorConfig option \<Rightarrow> State \<Rightarrow> AttemptResult option \<times> State" where
  "startMountBasedDownload env item mirrorConfig s =
     (let name = releaseName item
      in if configMissing (vrpConfig s)
         then (Some failed,
               updateItemStatus name Error 0 (Some ''Missing VRP configuration'') None None None s)
         else if \<not> truthy (rclonePath env)
         then (Some failed,
               updateItemStatus name Error 0 (Some ''Rclone dependency not found'') None None None s)
         else
           let dlPath = pjoin env (downloadPath item) name;
               s1 = snd (updateItem name (noUpdates\<lparr>u_downloadPath := Some dlPath\<rparr>) s);
               mountPoint = mountPointOf env name
           in case attemptBody env item mirrorConfig (the (rclonePath env)) dlPath mountPoint s1 of
                (Returned r, s2) \<Rightarrow> (Some r, s2)
              | (NeverSettles, s2) \<Rightarrow> (None, s2)
              | (Threw e, s2) \<Rightarrow>
                  (let (r, s3) = attemptFailed env name mountPoint e s2 in (Some r, s3)))"

subsection \<open>startDownload, resumeDownload\<close>

text \<open>
  \<^verbatim>\<open>startDownload\<close> wraps the attempt over a mirror in a \<^verbatim>\<open>try\<close> and falls back to the
  public endpoint when it throws. The attempt catches whatever is thrown inside it and returns
  a result, so the model has no thrown outcome for it and the source is chosen once.
\<close>

definition mkdirFailureText :: "string \<Rightarrow> JsError \<Rightarrow> string" where
  "mkdirFailureText dlPath err =
     (case err of
        OtherThrown text \<Rightarrow> ''Failed to create directory '' @ dlPath
      | PlainError message \<Rightarrow> ''Failed to create directory: '' @ message
      | ExecaError shortMessage message exitCode \<Rightarrow> ''Failed to create directory: '' @ message)"

definition chooseSource :: "Env \<Rightarrow> MirrorConfig option" where
  "chooseSource env =
     (if activeMirror env \<noteq> None \<and> truthy (activeMirrorConfigPath env)
         \<and> truthy (activeMirrorRemoteName env)
      then Some \<lparr>configFilePath = the (activeMirrorConfigPath env),
                 remoteName = the (activeMirrorRemoteName env)\<rparr>
      else None)"

definition startDownload ::
  "Env \<Rightarrow> DownloadItem \<Rightarrow> State \<Rightarrow> AttemptResult option \<times> State" where
  "startDownload env item s =
     (let name = releaseName item
      in if configMissing (vrpConfig s)
         then (Some failed,
               updateItemStatus name Error 0 (Some ''Missing VRP configuration'') None None None s)
         else if \<not> truthy (rclonePath env)
         then (Some failed,
               updateItemStatus name Error 0 (Some ''Rclone dependency not found'') None None None s)
         else
           let dlPath = pjoin env (downloadPath item) name;
               s1 = emit (MkDir dlPath)
                      (snd (updateItem name (noUpdates\<lparr>u_downloadPath := Some dlPath\<rparr>) s))
           in case mkdirError env dlPath of
                Some e \<Rightarrow>
                  (Some failed,
                   updateItemStatus name Error 0 (Some (take 500 (mkdirFailureText dlPath e)))
                     None None None s1)
              | None \<Rightarrow>
                  let s2 = otherTasks env AwaitDiskSpace (otherTasks env AwaitMkdir s1);
                      available = availableSpace env (downloadPath item);
                      requiredSpace = gameSizeBytes env item * 2;
                      proceed =
                        startMountBasedDownload env item (chooseSource env)
                          (otherTasks env AwaitMirror
                             (updateItemStatus name Downloading 0 None None None None s2))
                  in if available = None then proceed
                     else if 0 < requiredSpace \<and> the available < requiredSpace
                     then (Some failed,
                           updateItemStatus name Error 0
                             (Some (insufficientMessage env requiredSpace (the available)))
                             None None None s2)
                     else proceed)"

definition resumeDownload ::
  "Env \<Rightarrow> DownloadItem \<Rightarrow> State \<Rightarrow> AttemptResult option \<times> State" where
  "resumeDownload env item s =
     startMountBasedDownload env item None
       (updateItemStatus (releaseName item) Downloading (progress item) None None None None s)"

section \<open>Notions used in the statements\<close>

text \<open>
  The disk-space condition in the words of the specification: the available space \<open>X\<close> is
  known, the declared size \<open>Y\<close> is positive, and \<open>X < 2Y\<close>.
\<close>

definition spaceInsufficient :: "Env \<Rightarrow> DownloadItem \<Rightarrow> bool" where
  "spaceInsufficient env item =
     (\<exists>x. availableSpace env (downloadPath item) = Some x \<and> 0 < gameSizeBytes env item
          \<and> x < 2 * gameSizeBytes env item)"

text \<open>No other task replaces the configuration of the processor while an attempt awaits.\<close>

definition configStable :: "Env \<Rightarrow> bool" where
  "configStable env = (\<forall>p s. vrpConfig (interfere env p s) = vrpConfig s)"

text \<open>Every effect logged in the first state is still logged in the second.\<close>

definition keeps :: "State \<Rightarrow> State \<Rightarrow> bool" where
  "keeps s s' = (set (effects s) \<subseteq> set (effects s'))"

text \<open>The effects that open a stream.\<close>

fun isOpen :: "Effect \<Rightarrow> bool" where
  "isOpen (OpenRead path offset) = True"
| "isOpen (OpenWrite path flag) = True"
| "isOpen e = False"

text \<open>
  The state of an attempt at the moment the mount process has been started, when directories
  and disk space were in order.
\<close>

definition whenSpawned :: "Env \<Rightarrow> DownloadItem \<Rightarrow> MirrorConfig option \<Rightarrow> State \<Rightarrow> State" where
  "whenSpawned env item mirrorConfig s =
     (let name = releaseName item;
          dlPath = pjoin env (downloadPath item) name;
          mountPoint = mountPointOf env name;
          s1 = snd (updateItem name (noUpdates\<lparr>u_downloadPath := Some dlPath\<rparr>) s);
          s3 = otherTasks env AwaitDiskSpace (otherTasks env AwaitMkdir
                 (emit (MkDir mountPoint) (otherTasks env AwaitMkdir (emit (MkDir dlPath) s1))));
          s4 = updateItemStatus name Downloading 0 None None None None s3
      in emit (Spawn (the (rclonePath env)) (mountArgs env s4 name mirrorConfig mountPoint)) s4)"

text \<open>The effects that start a mount process.\<close>

fun isSpawn :: "Effect \<Rightarrow> bool" where
  "isSpawn (Spawn command args) = True"
| "isSpawn e = False"

section \<open>Example data\<close>

definition exampleItem :: DownloadItem where
  "exampleItem =
     \<lparr>releaseName = ''Game-A'', status = Downloading, progress = 40, error = Some ''stale'',
      speed = None, eta = None, pid = Some 99, size_text = Some ''2 GB'', downloadPath = ''/dl'',
      extractProgress = None\<rparr>"

definition exampleState :: State where
  "exampleState =
     \<lparr>vrpConfig = Some \<lparr>baseUri = Some ''https://host/'', password = Some ''pw''\<rparr>,
      activeDownloads = Map.empty,
      queue = [''Game-A'' \<mapsto> exampleItem],
      cancelled = (\<lambda>_. False),
      nextToken = 1,
      disk = Map.empty,
      effects = []\<rparr>"

text \<open>The same state with an attempt for the item already registered.\<close>

definition activeState :: State where
  "activeState =
     exampleState\<lparr>activeDownloads := [''Game-A'' \<mapsto> \<lparr>cancelToken = 0, mountProcess = Some 7\<rparr>]\<rparr>"

text \<open>
  An environment in which everything works: one file \<^verbatim>\<open>a.bin\<close> of 8 bytes under the mount,
  delivered in two chunks of 4, enough disk space, and no other task.
\<close>

definition exampleEnv :: Env where
  "exampleEnv =
     \<lparr>rclonePath = Some ''/bin/rclone'', tmpdir = ''/tmp'', now = 5, platform = Linux,
      pjoin = (\<lambda>a b. a @ ''/'' @ b), md5hex = (\<lambda>_. ''0f''),
      mkdirError = (\<lambda>_. None), availableSpace = (\<lambda>_. Some 4096),
      parseSizeToBytes = (\<lambda>_. 1024), formatBytes = (\<lambda>_. ''n B''),
      activeMirror = None, activeMirrorConfigPath = None, activeMirrorRemoteName = None,
      spawnHandle = 7,
      readdirPoll = (\<lambda>_. Some [''a.bin'']), readdirVerify = Some [''a.bin''],
      mountTree = Inr [(''a.bin'', File (Inr 8))],
      streamEvents = (\<lambda>_. [Data 4 10, Data 4 20]),
      copyStartTime = (\<lambda>_. 0), startTime = 0, downloadSpeedLimit = 0,
      roundPercent = (\<lambda>a b. 100 * a div b),
      speedText = (\<lambda>_ _. ''fast''), etaText = (\<lambda>_ _ _. ''soon''),
      interfere = (\<lambda>_ s. s)\<rparr>"

text \<open>The item declares 2 GB and 1 GB is available.\<close>

definition lowSpaceEnv :: Env where
  "lowSpaceEnv =
     exampleEnv\<lparr>availableSpace := (\<lambda>_. Some 1073741824),
                parseSizeToBytes := (\<lambda>_. 2147483648)\<rparr>"

text \<open>No listing of the mount point ever succeeds.\<close>

definition timeoutEnv :: Env where
  "timeoutEnv = exampleEnv\<lparr>readdirPoll := (\<lambda>_. None)\<rparr>"

text \<open>No listing succeeds, and the user cancels the item while the fourth poll is awaited.\<close>

definition cancelDuringWaitEnv :: Env where
  "cancelDuringWaitEnv =
     timeoutEnv\<lparr>interfere :=
       (\<lambda>p s. if p = AwaitPoll 3 then cancelDownload ''Game-A'' Cancelled None s else s)\<rparr>"

text \<open>The user cancels the item between the first and the second chunk of the file.\<close>

definition cancelMidFileEnv :: Env where
  "cancelMidFileEnv =
     exampleEnv\<lparr>interfere :=
       (\<lambda>p s. if p = AwaitChunk 0 1 then cancelDownload ''Game-A'' Cancelled None s else s)\<rparr>"

text \<open>The destination file exists and is empty.\<close>

definition emptyFileState :: State where
  "emptyFileState = exampleState\<lparr>disk := [''/dl/Game-A/a.bin'' \<mapsto> 0]\<rparr>"

text \<open>The destination file holds 4 of the 8 bytes.\<close>

definition partialFileState :: State where
  "partialFileState = exampleState\<lparr>disk := [''/dl/Game-A/a.bin'' \<mapsto> 4]\<rparr>"

section \<open>Properties of cancelDownload\<close>

lemma queue_stopController: "queue (stopController name s) = queue s"
  by (simp add: stopController_def emit_def Let_def split: option.splits)

lemma active_stopController: "activeDownloads (stopController name s) name = None"
  by (simp add: stopController_def emit_def Let_def split: option.splits)

lemma stopController_absent: "activeDownloads s name = None \<Longrightarrow> stopController name s = s"
  by (simp add: stopController_def)

lemma active_cancelDownload:
  "activeDownloads (cancelDownload name fs msg s) = activeDownloads (stopController name s)"
  by (simp add: cancelDownload_def updateItem_def findItem_def emit_def Let_def
      split: option.splits)

lemma cancelled_cancelDownload:
  "cancelled (cancelDownload name fs msg s) = cancelled (stopController name s)"
  by (simp add: cancelDownload_def updateItem_def findItem_def emit_def Let_def
      split: option.splits)

lemma queue_cancelDownload:
  "queue (cancelDownload name fs msg s) =
     (case queue s name of
        None \<Rightarrow> queue s
      | Some item \<Rightarrow> (queue s)(name \<mapsto> applyUpdates (cancelUpdates item fs msg) item))"
  by (simp add: cancelDownload_def updateItem_def findItem_def emit_def Let_def
      queue_stopController split: option.splits)

lemma cancelUpdates_twice:
  "applyUpdates (cancelUpdates (applyUpdates (cancelUpdates item fs msg) item) fs msg)
     (applyUpdates (cancelUpdates item fs msg) item) =
   applyUpdates (cancelUpdates item fs msg) item"
  by (simp add: applyUpdates_def cancelUpdates_def noUpdates_def orElse_def js_or_def Let_def)

text \<open>
  C4. For an item of the queue, \<^verbatim>\<open>cancelDownload(key, finalStatus, errorMsg)\<close> with
  \<open>Cancelled\<close> resets the progress to 0 and clears the error; with \<open>Error\<close> it sets the error to
  the given message, or keeps the item's own when no (or an empty) message is given; and an
  item whose status is \<open>Error\<close> stays \<open>Error\<close> under a cancel with \<open>Cancelled\<close>.
\<close>

theorem cancelDownload_terminal_update:
  assumes "queue s name = Some item"
  shows "\<exists>item'. queue (cancelDownload name finalStatus errorMsg s) name = Some item' \<and>
     (finalStatus = Cancelled \<longrightarrow> progress item' = 0 \<and> error item' = None) \<and>
     (finalStatus = Error \<longrightarrow>
        error item' = (if truthy errorMsg then errorMsg else error item) \<and> status item' = Error) \<and>
     (finalStatus = Cancelled \<longrightarrow>
        status item' = (if status item = Error then Error else Cancelled))"
  using assms
  by (simp add: queue_cancelDownload applyUpdates_def cancelUpdates_def noUpdates_def orElse_def
      js_or_def Let_def)

theorem cancelDownload_terminal_update_witness:
  "(\<exists>item'. queue (cancelDownload ''Game-A'' Cancelled None
                     (exampleState\<lparr>queue := [''Game-A'' \<mapsto> exampleItem\<lparr>status := Error\<rparr>]\<rparr>))
                ''Game-A'' = Some item' \<and>
            progress item' = 0 \<and> error item' = None \<and> status item' = Error) \<and>
   (\<exists>item'. queue (cancelDownload ''Game-A'' Error None exampleState) ''Game-A'' = Some item' \<and>
            error item' = Some ''stale'' \<and> status item' = Error)"
  using
    cancelDownload_terminal_update
      [of "exampleState\<lparr>queue := [''Game-A'' \<mapsto> exampleItem\<lparr>status := Error\<rparr>]\<rparr>" "''Game-A''"
          "exampleItem\<lparr>status := Error\<rparr>" Cancelled None]
    cancelDownload_terminal_update [of exampleState "''Game-A''" exampleItem Error None]
  by (simp add: exampleState_def exampleItem_def truthy_def)

text \<open>
  C7. Calling \<^verbatim>\<open>cancelDownload\<close> a second time with the same arguments changes neither the
  registry, nor the items of the queue, nor the cancellation tokens, and after the first call
  the registry has no entry for the key.
\<close>

theorem cancelDownload_idempotent:
  "activeDownloads (cancelDownload name fs msg (cancelDownload name fs msg s)) =
     activeDownloads (cancelDownload name fs msg s) \<and>
   queue (cancelDownload name fs msg (cancelDownload name fs msg s)) =
     queue (cancelDownload name fs msg s) \<and>
   cancelled (cancelDownload name fs msg (cancelDownload name fs msg s)) =
     cancelled (cancelDownload name fs msg s) \<and>
   activeDownloads (cancelDownload name fs msg s) name = None"
proof -
  let ?s1 = "cancelDownload name fs msg s"
  have absent: "activeDownloads ?s1 name = None"
    by (simp add: active_cancelDownload active_stopController)
  then have stop: "stopController name ?s1 = ?s1"
    by (rule stopController_absent)
  have "queue (cancelDownload name fs msg ?s1) = queue ?s1"
    by (cases "queue s name") (simp_all add: queue_cancelDownload cancelUpdates_twice)
  with absent stop show ?thesis
    by (simp add: active_cancelDownload cancelled_cancelDownload)
qed

text \<open>
  C9. When the registry has no entry for the key and the item is in the queue,
  \<^verbatim>\<open>cancelDownload\<close> still writes the terminal update: the status becomes the final status
  (an \<open>Error\<close> item stays \<open>Error\<close> under \<open>Cancelled\<close>), the pid is cleared, the progress is reset
  under \<open>Cancelled\<close>, the error is set under \<open>Error\<close> and cleared otherwise; and the queue that
  results is the one that results when an entry is registered.
\<close>

theorem cancelDownload_without_registry_entry:
  assumes "activeDownloads s name = None" and "queue s name = Some item"
  shows "queue (cancelDownload name finalStatus errorMsg s) name =
      Some (item\<lparr>status := (if status item = Error \<and> finalStatus = Cancelled then Error
                              else finalStatus),
                 progress := (if finalStatus = Cancelled then 0 else progress item),
                 error := (if finalStatus = Error then js_or errorMsg (error item) else None),
                 pid := None\<rparr>) \<and>
    (\<forall>c. queue (cancelDownload name finalStatus errorMsg
               (s\<lparr>activeDownloads := (activeDownloads s)(name \<mapsto> c)\<rparr>)) =
          queue (cancelDownload name finalStatus errorMsg s))"
  using assms
  by (auto simp add: queue_cancelDownload applyUpdates_def cancelUpdates_def noUpdates_def
      orElse_def Let_def)

theorem cancelDownload_without_registry_entry_witness:
  "activeDownloads exampleState ''Game-A'' = None \<and>
   queue exampleState ''Game-A'' = Some exampleItem \<and>
   queue (cancelDownload ''Game-A'' Cancelled None exampleState) ''Game-A'' =
     Some (exampleItem\<lparr>status := Cancelled, progress := 0, error := None, pid := None\<rparr>) \<and>
   queue (cancelDownload ''Game-A'' Cancelled None activeState) =
     queue (cancelDownload ''Game-A'' Cancelled None exampleState)"
proof -
  have a: "activeDownloads exampleState ''Game-A'' = None"
    by (simp add: exampleState_def)
  have q: "queue exampleState ''Game-A'' = Some exampleItem"
    by (simp add: exampleState_def)
  have st: "status exampleItem = Downloading"
    by (simp add: exampleItem_def)
  have act: "activeState = exampleState\<lparr>activeDownloads :=
      (activeDownloads exampleState)(''Game-A'' \<mapsto> \<lparr>cancelToken = 0, mountProcess = Some 7\<rparr>)\<rparr>"
    by (simp add: activeState_def exampleState_def)
  show ?thesis
    using cancelDownload_without_registry_entry [OF a q, of Cancelled None] a q st
    by (simp add: act)
qed

section \<open>What the phases of an attempt do to the effect log and to the configuration\<close>

lemma effects_otherTasks [simp]: "effects (otherTasks env p s) = effects s"
  by (simp add: otherTasks_def)

lemma effects_emit [simp]: "effects (emit e s) = effects s @ [e]"
  by (simp add: emit_def)

lemma effects_updateItem [simp]: "effects (snd (updateItem name u s)) = effects s"
  by (simp add: updateItem_def split: option.splits)

lemma effects_updateItemStatus:
  "effects (updateItemStatus name st prog err spd et ep s) =
     effects s @ (if queue s name = None then [] else [EmitUpdate])"
  by (simp add: updateItemStatus_def updateItem_def Let_def split: option.splits)

lemma effects_clearPid [simp]: "effects (clearPid name s) = effects s"
  by (simp add: clearPid_def)

lemma effects_unregister [simp]: "effects (unregister name s) = effects s"
  by (simp add: unregister_def)

lemma effects_writeChunk [simp]: "effects (writeChunk p n s) = effects s"
  by (simp add: writeChunk_def)

lemma effects_openDest [simp]: "effects (openDest p f s) = effects s"
  by (simp add: openDest_def split: OpenFlag.splits)

lemma keeps_refl [simp]: "keeps s s"
  by (simp add: keeps_def)

lemma keeps_otherTasks [simp]: "keeps a (otherTasks env p s) = keeps a s"
  by (simp add: keeps_def)

lemma keeps_emit: "keeps a s \<Longrightarrow> keeps a (emit e s)"
  by (auto simp add: keeps_def)

lemma keeps_updateItemStatus: "keeps a s \<Longrightarrow> keeps a (updateItemStatus name st prog err spd et ep s)"
  by (auto simp add: keeps_def effects_updateItemStatus)

lemma keeps_cleanup: "keeps a s \<Longrightarrow> keeps a (cleanup env mp name s)"
  by (cases "truthy name") (auto simp add: keeps_def cleanup_def Let_def split: option.splits)

lemma keeps_clearPid [simp]: "keeps a (clearPid name s) = keeps a s"
  by (simp add: keeps_def)

lemma keeps_unregister [simp]: "keeps a (unregister name s) = keeps a s"
  by (simp add: keeps_def)

lemma keeps_writeChunk [simp]: "keeps a (writeChunk p n s) = keeps a s"
  by (simp add: keeps_def)

lemma keeps_openDest [simp]: "keeps a (openDest p f s) = keeps a s"
  by (simp add: keeps_def)

lemma keeps_onProgress: "keeps a s \<Longrightarrow> keeps a (onProgress env name ts tc so pb clock s)"
  by (simp add: onProgress_def Let_def keeps_updateItemStatus)

lemma keeps_copyEvents:
  "keeps a s \<Longrightarrow>
   keeps a (snd (copyEvents env i tok (onProgress env name ts tc so) src dst off k evs v s))"
proof (induction evs arbitrary: k v s)
  case Nil
  then show ?case by simp
next
  case (Cons ev evs)
  show ?case
  proof (cases ev)
    case (Data len clock)
    show ?thesis
      using Cons.prems
      by (auto simp add: Data Let_def keeps_emit keeps_onProgress intro!: Cons.IH)
  next
    case (ReadError e)
    then show ?thesis using Cons.prems by (simp add: keeps_emit)
  next
    case (WriteError e)
    then show ?thesis using Cons.prems by (simp add: keeps_emit)
  qed
qed

lemma keeps_copyFileWithProgress:
  "keeps a s \<Longrightarrow>
   keeps a (snd (copyFileWithProgress env i src dst off (onProgress env name ts tc so) tok s))"
  by (simp add: copyFileWithProgress_def Let_def keeps_copyEvents keeps_emit)

lemma keeps_downloadFile:
  "keeps a s \<Longrightarrow> keeps a (snd (downloadFile env name mp dl tok ts i file tc s))"
  by (simp add: downloadFile_def Let_def keeps_copyFileWithProgress keeps_emit split: option.splits)

lemma keeps_downloadFiles:
  "keeps a s \<Longrightarrow> keeps a (snd (downloadFiles env name mp dl tok ts files i tc s))"
proof (induction files arbitrary: i tc s)
  case Nil
  then show ?case by simp
next
  case (Cons f rest)
  obtain pr s1 where df: "downloadFile env name mp dl tok ts i f tc s = (pr, s1)"
    by (cases "downloadFile env name mp dl tok ts i f tc s")
  have k1: "keeps a s1"
    using keeps_downloadFile[OF Cons.prems, of env name mp dl tok ts i f tc] df by simp
  show ?case
    using Cons.prems k1 Cons.IH[OF k1]
    by (cases pr) (simp_all add: df)
qed

lemma keeps_existingBytes:
  "keeps a s \<Longrightarrow> keeps a (snd (existingBytes env dl files i tc s))"
  by (induction files arbitrary: i tc s) (simp_all add: Let_def)

lemma keeps_registerAttempt:
  "keeps a s \<Longrightarrow> keeps a (snd (snd (snd (registerAttempt env name dl proc files s))))"
proof -
  assume k: "keeps a s"
  obtain tc s1 where eb: "existingBytes env dl files 0 0 s = (tc, s1)"
    by (cases "existingBytes env dl files 0 0 s")
  have k1: "keeps a s1" using keeps_existingBytes[OF k, of env dl files 0 0] eb by simp
  show ?thesis
    using k1 by (simp add: registerAttempt_def Let_def eb keeps_def effects_updateItemStatus subset_iff)
qed

lemma keeps_finishAttempt:
  "keeps a s \<Longrightarrow> keeps a (snd (finishAttempt env name mp dc s))"
  by (simp add: finishAttempt_def Let_def keeps_cleanup)

lemma keeps_transferFiles:
  "keeps a s \<Longrightarrow> keeps a (snd (transferFiles env name mp dl proc s))"
proof -
  assume k: "keeps a s"
  show ?thesis
  proof (cases "getFilesRecursively (pjoin env) mp None (mountTree env)")
    case (Inl e)
    then show ?thesis using k by (simp add: transferFiles_def)
  next
    case (Inr files)
    obtain ts tc tok s1 where ra:
      "registerAttempt env name dl proc files (otherTasks env AwaitEnumerate s) = (ts, tc, tok, s1)"
      by (cases "registerAttempt env name dl proc files (otherTasks env AwaitEnumerate s)") auto
    have k1: "keeps a s1"
      using keeps_registerAttempt[of a "otherTasks env AwaitEnumerate s" env name dl proc files] k ra
      by simp
    obtain lo s2 where dfs: "downloadFiles env name mp dl tok ts files 0 tc s1 = (lo, s2)"
      by (cases "downloadFiles env name mp dl tok ts files 0 tc s1")
    have k2: "keeps a s2"
      using keeps_downloadFiles[OF k1, of env name mp dl tok ts files 0 tc] dfs by simp
    show ?thesis
      using k2 keeps_finishAttempt[OF k2, of env name mp]
      by (cases lo) (simp_all add: transferFiles_def Inr ra dfs split_beta)
  qed
qed

lemma keeps_verifyMount:
  "keeps a s \<Longrightarrow> keeps a (snd (verifyMount env name mp dl proc s))"
  by (simp add: verifyMount_def Let_def keeps_transferFiles keeps_cleanup keeps_updateItemStatus
      keeps_emit)

lemma keeps_waitForMount:
  "keeps a s \<Longrightarrow> keeps a (snd (waitForMount env mp i s))"
proof (induction env mp i s rule: waitForMount.induct)
  case (1 env mountPoint i s)
  let ?s2 = "otherTasks env (AwaitPoll i) (emit (ReadDir mountPoint)
               (otherTasks env (AwaitSleep i) (emit (Sleep 1000) s)))"
  have k2: "keeps a ?s2" using "1.prems" by (simp add: keeps_emit)
  show ?case
  proof (cases "i < 10")
    case True
    show ?thesis
    proof (cases "readdirPoll env i")
      case None
      show ?thesis
        using "1.IH"(1)[OF True refl refl None k2] True None
        by (subst waitForMount.simps) (simp add: Let_def)
    next
      case (Some l)
      then show ?thesis using True k2 by (subst waitForMount.simps) (simp add: Let_def)
    qed
  next
    case False
    then show ?thesis using "1.prems" by (subst waitForMount.simps) simp
  qed
qed

lemma keeps_attemptFailed:
  "keeps a s \<Longrightarrow> keeps a (snd (attemptFailed env name mp err s))"
  by (simp add: attemptFailed_def Let_def keeps_cleanup keeps_updateItemStatus)

lemma vrpConfig_emit [simp]: "vrpConfig (emit e s) = vrpConfig s"
  by (simp add: emit_def)

lemma vrpConfig_updateItem [simp]: "vrpConfig (snd (updateItem name u s)) = vrpConfig s"
  by (simp add: updateItem_def split: option.splits)

lemma vrpConfig_updateItemStatus [simp]:
  "vrpConfig (updateItemStatus name st prog err spd et ep s) = vrpConfig s"
  by (simp add: updateItemStatus_def updateItem_def Let_def split: option.splits)

lemma vrpConfig_otherTasks: "configStable env \<Longrightarrow> vrpConfig (otherTasks env p s) = vrpConfig s"
  by (simp add: configStable_def otherTasks_def)

lemma vrpConfig_cancelDownload [simp]:
  "vrpConfig (cancelDownload name fs msg s) = vrpConfig s"
  by (simp add: cancelDownload_def stopController_def updateItem_def findItem_def emit_def Let_def
      split: option.splits)

lemma spaceInsufficient_iff:
  "insufficientSpace (availableSpace env (downloadPath item)) (gameSizeBytes env item * 2)
   = spaceInsufficient env item"
  by (auto simp add: spaceInsufficient_def insufficientSpace_def mult.commute)

lemma spawn_cleanup:
  "(Spawn a b \<in> set (effects (cleanup env mp name s))) = (Spawn a b \<in> set (effects s))"
  by (cases "truthy name")
     (auto simp add: cleanup_def unmountCommand_def Let_def split: option.splits Platform.splits)

lemma spawn_updateItemStatus:
  "(Spawn a b \<in> set (effects (updateItemStatus name st prog err spd et ep s))) =
   (Spawn a b \<in> set (effects s))"
  by (simp add: effects_updateItemStatus)

lemma count_RmDir_updateItemStatus [simp]:
  "count_list (effects (updateItemStatus name st prog err spd et ep s)) (RmDir x) =
     count_list (effects s) (RmDir x)"
  by (simp add: effects_updateItemStatus)

lemma count_RmDir_cleanup:
  "count_list (effects (cleanup env mountPoint name s)) (RmDir mountPoint) =
     count_list (effects s) (RmDir mountPoint) + 1"
  by (cases "truthy name")
     (simp_all add: cleanup_def unmountCommand_def Let_def split: option.splits Platform.splits)

lemma count_RmDir_waitForMount:
  "count_list (effects (snd (waitForMount env mp i s))) (RmDir x) = count_list (effects s) (RmDir x)"
proof (induction env mp i s rule: waitForMount.induct)
  case (1 env mountPoint i s)
  let ?s2 = "otherTasks env (AwaitPoll i) (emit (ReadDir mountPoint)
               (otherTasks env (AwaitSleep i) (emit (Sleep 1000) s)))"
  show ?case
  proof (cases "i < 10")
    case True
    show ?thesis
    proof (cases "readdirPoll env i")
      case None
      show ?thesis
        using "1.IH"(1)[OF True refl refl None] True None
        by (subst waitForMount.simps) (simp add: Let_def)
    next
      case (Some l)
      then show ?thesis using True by (subst waitForMount.simps) (simp add: Let_def)
    qed
  next
    case False
    then show ?thesis by (subst waitForMount.simps) simp
  qed
qed

lemma otherTasks_quiet: "interfere env = (\<lambda>p s. s) \<Longrightarrow> otherTasks env p s = s"
  by (simp add: otherTasks_def)

lemma queue_emit [simp]: "queue (emit e s) = queue s"
  by (simp add: emit_def)

lemma queue_unregister [simp]: "queue (unregister name s) = queue s"
  by (simp add: unregister_def)

lemma queue_cleanup_quiet:
  "interfere env = (\<lambda>p s. s) \<Longrightarrow> queue (cleanup env mp name s) = queue s"
  by (cases "truthy name")
     (simp_all add: cleanup_def Let_def otherTasks_quiet split: option.splits)

lemma activeDownloads_cleanup_quiet:
  "interfere env = (\<lambda>p s. s) \<Longrightarrow> activeDownloads (cleanup env mp name s) = activeDownloads s"
  by (cases "truthy name")
     (simp_all add: cleanup_def Let_def otherTasks_quiet emit_def split: option.splits)

lemma isOpen_updateItemStatus [simp]:
  "filter isOpen (effects (updateItemStatus name st prog err spd et ep s)) = filter isOpen (effects s)"
  by (simp add: effects_updateItemStatus)

lemma isOpen_onProgress [simp]:
  "filter isOpen (effects (onProgress env name ts tc so pb clock s)) = filter isOpen (effects s)"
  by (simp add: onProgress_def Let_def)

lemma isOpen_copyEvents:
  "filter isOpen (effects (snd (copyEvents env i tok (onProgress env name ts tc so) src dst off k
      evs v s))) = filter isOpen (effects s)"
proof (induction evs arbitrary: k v s)
  case Nil
  then show ?case by simp
next
  case (Cons ev evs)
  show ?case
  proof (cases ev)
    case (Data len clock)
    show ?thesis
      by (simp add: Data Let_def Cons.IH)
  next
    case (ReadError e)
    then show ?thesis by simp
  next
    case (WriteError e)
    then show ?thesis by simp
  qed
qed


section \<open>Evaluating the model on the example data\<close>

lemmas model_defs =
  startDownload_def startMountBasedDownload_def attemptBody_def attemptFailed_def verifyMount_def
  transferFiles_def registerAttempt_def finishAttempt_def downloadFile_def copyFileWithProgress_def
  onProgress_def resumeOffset_def openFlag_def openDest_def writeChunk_def cleanup_def
  unmountCommand_def updateItemStatus_def updateItem_def findItem_def applyUpdates_def
  noUpdates_def orElse_def emit_def otherTasks_def configMissing_def truthy_def gameSizeBytes_def
  insufficientSpace_def insufficientMessage_def clearPid_def unregister_def mountPointOf_def
  mountArgs_def sanitizeChar_def getFilesRecursively_def relativePathOf_def errorText_def
  killedByTerm_def chooseSource_def failed_def cancelDownload_def stopController_def
  cancelUpdates_def js_or_def waitForMount.simps showNat.simps Let_def

lemmas example_defs =
  exampleEnv_def exampleItem_def exampleState_def activeState_def lowSpaceEnv_def timeoutEnv_def
  cancelDuringWaitEnv_def cancelMidFileEnv_def emptyFileState_def partialFileState_def

lemma configStable_example [simp]: "configStable exampleEnv"
  by (simp add: configStable_def exampleEnv_def)

lemma configStable_lowSpace [simp]: "configStable lowSpaceEnv"
  by (simp add: configStable_def lowSpaceEnv_def exampleEnv_def)

lemma configStable_cancelDuringWait: "configStable cancelDuringWaitEnv"
  by (simp add: configStable_def cancelDuringWaitEnv_def timeoutEnv_def exampleEnv_def)


section \<open>The readiness loop\<close>

lemma waitForMount_effects_timeout:
  "\<forall>k. i \<le> k \<and> k < 10 \<longrightarrow> readdirPoll env k = None \<Longrightarrow>
   waitForMount env mountPoint i s = (False, snd (waitForMount env mountPoint i s)) \<and>
   effects (snd (waitForMount env mountPoint i s)) =
     effects s @ concat (replicate (10 - i) [Sleep 1000, ReadDir mountPoint])"
proof (induction env mountPoint i s rule: waitForMount.induct)
  case (1 env mountPoint i s)
  show ?case
  proof (cases "i < 10")
    case True
    let ?s2 = "otherTasks env (AwaitPoll i) (emit (ReadDir mountPoint)
                 (otherTasks env (AwaitSleep i) (emit (Sleep 1000) s)))"
    from True "1.prems" have none: "readdirPoll env i = None" by simp
    from "1.prems" have later: "\<forall>k. Suc i \<le> k \<and> k < 10 \<longrightarrow> readdirPoll env k = None" by simp
    have step: "waitForMount env mountPoint i s = waitForMount env mountPoint (Suc i) ?s2"
      using True none by (subst waitForMount.simps) (simp add: Let_def)
    have ih: "waitForMount env mountPoint (Suc i) ?s2 =
        (False, snd (waitForMount env mountPoint (Suc i) ?s2)) \<and>
      effects (snd (waitForMount env mountPoint (Suc i) ?s2)) =
        effects ?s2 @ concat (replicate (10 - Suc i) [Sleep 1000, ReadDir mountPoint])"
      using "1.IH"(1)[OF True refl refl none later] .
    from True have rep: "10 - i = Suc (10 - Suc i)" by simp
    show ?thesis
      unfolding step using ih by (simp add: rep)
  next
    case False
    then show ?thesis by (subst (1 2 3) waitForMount.simps) simp
  qed
qed

lemma waitForMount_ready:
  "i \<le> k \<Longrightarrow> k < 10 \<Longrightarrow> readdirPoll env k = Some listing \<Longrightarrow>
   fst (waitForMount env mountPoint i s)"
proof (induction env mountPoint i s rule: waitForMount.induct)
  case (1 env mountPoint i s)
  from "1.prems" have lt: "i < 10" by simp
  show ?case
  proof (cases "readdirPoll env i")
    case None
    with "1.prems" have "i \<noteq> k" by auto
    with "1.prems" have le: "Suc i \<le> k" by simp
    have "fst (waitForMount env mountPoint (Suc i)
            (otherTasks env (AwaitPoll i) (emit (ReadDir mountPoint)
               (otherTasks env (AwaitSleep i) (emit (Sleep 1000) s)))))"
      using "1.IH"(1)[OF lt refl refl None le "1.prems"(2,3)] .
    then show ?thesis
      using lt None by (subst waitForMount.simps) (simp add: Let_def)
  next
    case (Some a)
    with lt show ?thesis by (subst waitForMount.simps) (simp add: Let_def)
  qed
qed

lemma queue_waitForMount_quiet:
  "interfere env = (\<lambda>p s. s) \<Longrightarrow> queue (snd (waitForMount env mp i s)) = queue s"
proof (induction env mp i s rule: waitForMount.induct)
  case (1 env mountPoint i s)
  note quiet = "1.prems"
  show ?case
  proof (cases "i < 10")
    case True
    show ?thesis
    proof (cases "readdirPoll env i")
      case None
      show ?thesis
        using "1.IH"(1)[OF True refl refl None quiet] True None
        by (subst waitForMount.simps) (simp add: Let_def otherTasks_quiet [OF quiet])
    next
      case (Some l)
      then show ?thesis using True
        by (subst waitForMount.simps) (simp add: Let_def otherTasks_quiet [OF quiet])
    qed
  next
    case False
    then show ?thesis by (subst waitForMount.simps) simp
  qed
qed


section \<open>Reaching the mount, or returning before it\<close>

lemma attemptBody_rejects:
  assumes "mkdirError env dl = None" and "mkdirError env mp = None"
    and "spaceInsufficient env item"
  shows "fst (attemptBody env item mc rclone dl mp s) = Returned failed"
    and "(Spawn a b \<in> set (effects (snd (attemptBody env item mc rclone dl mp s)))) =
         (Spawn a b \<in> set (effects s))"
  using assms
  by (simp_all add: attemptBody_def Let_def spaceInsufficient_iff spawn_cleanup
      spawn_updateItemStatus)

lemma attemptBody_spawns:
  assumes mk: "mkdirError env dl = None" "mkdirError env mp = None"
    and space: "\<not> spaceInsufficient env item"
    and cfg: "vrpConfig s = Some c" and stable: "configStable env"
  shows "\<exists>args. Spawn rclone args \<in> set (effects (snd (attemptBody env item mc rclone dl mp s)))"
proof -
  let ?s3 = "otherTasks env AwaitDiskSpace (otherTasks env AwaitMkdir
               (emit (MkDir mp) (otherTasks env AwaitMkdir (emit (MkDir dl) s))))"
  let ?s4 = "updateItemStatus (releaseName item) Downloading 0 None None None None ?s3"
  let ?sp = "Spawn rclone (mountArgs env ?s4 (releaseName item) mc mp)"
  let ?s5 = "emit ?sp ?s4"
  let ?w = "waitForMount env mp 0 ?s5"
  have c3: "vrpConfig ?s3 = Some c"
    using cfg stable by (simp add: vrpConfig_otherTasks)
  have kw: "keeps ?s5 (snd ?w)"
    by (rule keeps_waitForMount) simp
  have kv: "keeps ?s5 (snd (verifyMount env (releaseName item) mp dl (spawnHandle env) (snd ?w)))"
    by (rule keeps_verifyMount) (rule kw)
  have body: "attemptBody env item mc rclone dl mp s =
      (if \<not> fst ?w
       then (Threw (PlainError ''Mount failed to become ready within 10 seconds''), snd ?w)
       else verifyMount env (releaseName item) mp dl (spawnHandle env) (snd ?w))"
    using mk space c3 by (simp add: attemptBody_def Let_def spaceInsufficient_iff)
  have "keeps ?s5 (snd (attemptBody env item mc rclone dl mp s))"
    unfolding body using kw kv by (cases "fst ?w") simp_all
  moreover have "?sp \<in> set (effects ?s5)" by simp
  ultimately show ?thesis by (auto simp add: keeps_def)
qed

lemma startMountBasedDownload_spawns:
  assumes cfg: "\<not> configMissing (vrpConfig s)" and rc: "truthy (rclonePath env)"
    and mk: "mkdirError env (pjoin env (downloadPath item) (releaseName item)) = None"
        "mkdirError env (mountPointOf env (releaseName item)) = None"
    and space: "\<not> spaceInsufficient env item"
    and stable: "configStable env"
  shows "\<exists>args. Spawn (the (rclonePath env)) args
           \<in> set (effects (snd (startMountBasedDownload env item mc s)))"
proof -
  let ?name = "releaseName item"
  let ?dl = "pjoin env (downloadPath item) ?name"
  let ?mp = "mountPointOf env ?name"
  let ?s1 = "snd (updateItem ?name (noUpdates\<lparr>u_downloadPath := Some ?dl\<rparr>) s)"
  from cfg obtain c where c1: "vrpConfig ?s1 = Some c"
    by (auto simp add: configMissing_def split: option.splits)
  obtain args where sp:
    "Spawn (the (rclonePath env)) args
       \<in> set (effects (snd (attemptBody env item mc (the (rclonePath env)) ?dl ?mp ?s1)))"
    using attemptBody_spawns[OF mk space c1 stable] by blast
  obtain out s2 where ab: "attemptBody env item mc (the (rclonePath env)) ?dl ?mp ?s1 = (out, s2)"
    by (cases "attemptBody env item mc (the (rclonePath env)) ?dl ?mp ?s1")
  from sp ab have in2: "Spawn (the (rclonePath env)) args \<in> set (effects s2)" by simp
  have "Spawn (the (rclonePath env)) args
          \<in> set (effects (snd (startMountBasedDownload env item mc s)))"
  proof (cases out)
    case (Returned r)
    then show ?thesis using cfg rc ab in2 by (simp add: startMountBasedDownload_def Let_def)
  next
    case (Threw e)
    have "keeps s2 (snd (attemptFailed env ?name ?mp e s2))"
      by (rule keeps_attemptFailed) simp
    with in2 have "Spawn (the (rclonePath env)) args
        \<in> set (effects (snd (attemptFailed env ?name ?mp e s2)))"
      by (auto simp add: keeps_def)
    then show ?thesis
      using cfg rc ab Threw by (simp add: startMountBasedDownload_def Let_def split_beta)
  next
    case NeverSettles
    then show ?thesis using cfg rc ab in2 by (simp add: startMountBasedDownload_def Let_def)
  qed
  then show ?thesis by blast
qed

lemma startMountBasedDownload_rejects:
  assumes cfg: "\<not> configMissing (vrpConfig s)" and rc: "truthy (rclonePath env)"
    and mk: "mkdirError env (pjoin env (downloadPath item) (releaseName item)) = None"
        "mkdirError env (mountPointOf env (releaseName item)) = None"
    and space: "spaceInsufficient env item"
  shows "fst (startMountBasedDownload env item mc s) = Some failed"
    and "(Spawn a b \<in> set (effects (snd (startMountBasedDownload env item mc s)))) =
         (Spawn a b \<in> set (effects s))"
proof -
  let ?name = "releaseName item"
  let ?dl = "pjoin env (downloadPath item) ?name"
  let ?mp = "mountPointOf env ?name"
  let ?s1 = "snd (updateItem ?name (noUpdates\<lparr>u_downloadPath := Some ?dl\<rparr>) s)"
  obtain out s2 where ab: "attemptBody env item mc (the (rclonePath env)) ?dl ?mp ?s1 = (out, s2)"
    by (cases "attemptBody env item mc (the (rclonePath env)) ?dl ?mp ?s1")
  from attemptBody_rejects(1)[OF mk space, of mc "the (rclonePath env)" ?s1] ab
  have out: "out = Returned failed" by simp
  from attemptBody_rejects(2)[OF mk space, of a b mc "the (rclonePath env)" ?s1] ab
  have eff: "(Spawn a b \<in> set (effects s2)) = (Spawn a b \<in> set (effects s))" by simp
  show "fst (startMountBasedDownload env item mc s) = Some failed"
    using cfg rc ab out by (simp add: startMountBasedDownload_def Let_def)
  show "(Spawn a b \<in> set (effects (snd (startMountBasedDownload env item mc s)))) =
         (Spawn a b \<in> set (effects s))"
    using cfg rc ab out eff by (simp add: startMountBasedDownload_def Let_def)
qed

lemma startDownload_rejects:
  assumes cfg: "\<not> configMissing (vrpConfig s)" and rc: "truthy (rclonePath env)"
    and mk: "mkdirError env (pjoin env (downloadPath item) (releaseName item)) = None"
    and space: "spaceInsufficient env item"
  shows "fst (startDownload env item s) = Some failed"
    and "(Spawn a b \<in> set (effects (snd (startDownload env item s)))) =
         (Spawn a b \<in> set (effects s))"
proof -
  from space obtain x where x: "availableSpace env (downloadPath item) = Some x"
    and pos: "0 < gameSizeBytes env item" and lt: "x < 2 * gameSizeBytes env item"
    by (auto simp add: spaceInsufficient_def)
  from lt have lt': "x < gameSizeBytes env item * 2" by (simp add: mult.commute)
  show "fst (startDownload env item s) = Some failed"
    using cfg rc mk x pos lt' by (simp add: startDownload_def Let_def)
  show "(Spawn a b \<in> set (effects (snd (startDownload env item s)))) =
         (Spawn a b \<in> set (effects s))"
    using cfg rc mk x pos lt'
    by (simp add: startDownload_def Let_def spawn_updateItemStatus)
qed

lemma startDownload_proceeds:
  assumes cfg: "\<not> configMissing (vrpConfig s)" and rc: "truthy (rclonePath env)"
    and mk: "mkdirError env (pjoin env (downloadPath item) (releaseName item)) = None"
    and space: "\<not> spaceInsufficient env item"
  shows "startDownload env item s =
     startMountBasedDownload env item (chooseSource env)
       (otherTasks env AwaitMirror
          (updateItemStatus (releaseName item) Downloading 0 None None None None
             (otherTasks env AwaitDiskSpace (otherTasks env AwaitMkdir
                (emit (MkDir (pjoin env (downloadPath item) (releaseName item)))
                   (snd (updateItem (releaseName item)
                      (noUpdates\<lparr>u_downloadPath :=
                         Some (pjoin env (downloadPath item) (releaseName item))\<rparr>) s)))))))"
proof (cases "availableSpace env (downloadPath item)")
  case None
  then show ?thesis using cfg rc mk by (simp add: startDownload_def Let_def)
next
  case (Some x)
  with space have "\<not> (0 < gameSizeBytes env item \<and> x < gameSizeBytes env item * 2)"
    by (auto simp add: spaceInsufficient_def mult.commute)
  then show ?thesis using cfg rc mk Some by (auto simp add: startDownload_def Let_def)
qed

lemma registerAttempt_entry:
  "registerAttempt env name dl proc files s0 = (ts, tc, tok, s1) \<Longrightarrow>
   activeDownloads s1 name = Some \<lparr>cancelToken = tok, mountProcess = Some proc\<rparr> \<and>
   \<not> cancelled s1 tok"
  by (auto simp add: registerAttempt_def Let_def split_beta)


section \<open>The resume policy (C1)\<close>

text \<open>
  C1, as amended. In one round of the copy loop the destination is looked up before the copy.
  When it exists with a size \<open>n > 0\<close>, the source is opened for reading at offset \<open>n\<close> and
  the destination is opened in append mode. When it does not exist, or exists and is empty,
  the source is opened at offset 0 and the destination in create/overwrite mode. The round
  opens no other stream.
\<close>

theorem resume_offset_and_open_mode:
  assumes "mkdirError env (pjoin env (pjoin env dl (relativePath f)) ''..'') = None"
  shows
    "filter isOpen (effects (snd (downloadFile env name mp dl tok ts i f tc s))) =
     filter isOpen (effects s) @
       (case disk (otherTasks env (AwaitFileMkdir i)
                     (emit (MkDir (pjoin env (pjoin env dl (relativePath f)) ''..'')) s))
                  (pjoin env dl (relativePath f)) of
          None \<Rightarrow>
            [OpenRead (pjoin env mp (relativePath f)) 0,
             OpenWrite (pjoin env dl (relativePath f)) FlagW]
        | Some n \<Rightarrow>
            [OpenRead (pjoin env mp (relativePath f)) n,
             OpenWrite (pjoin env dl (relativePath f)) (if 0 < n then FlagA else FlagW)])"
  using assms
  by (simp add: downloadFile_def copyFileWithProgress_def Let_def isOpen_copyEvents
      resumeOffset_def openFlag_def split: option.splits)

text \<open>The witness: a destination that holds 4 bytes is resumed at offset 4 in append mode.\<close>

theorem resume_offset_and_open_mode_witness:
  "filter isOpen (effects (snd (downloadFile exampleEnv ''Game-A'' ''/mnt'' ''/dl/Game-A'' 0 8 0
      \<lparr>relativePath = ''a.bin'', fileSize = 8\<rparr> 4 partialFileState))) =
     [OpenRead ''/mnt/a.bin'' 4, OpenWrite ''/dl/Game-A/a.bin'' FlagA]"
  using resume_offset_and_open_mode [of exampleEnv "''/dl/Game-A''" "\<lparr>relativePath = ''a.bin'', fileSize = 8\<rparr>"
      "''Game-A''" "''/mnt''" 0 8 0 4 partialFileState]
  by (simp add: example_defs otherTasks_def emit_def)

text \<open>
  C1 as stated fails for a destination that exists and is empty: its size 0 is the start
  offset, and the write stream is opened with \<^verbatim>\<open>'w'\<close>, not in append mode.
\<close>

theorem existing_empty_file_opened_for_overwrite:
  "disk emptyFileState ''/dl/Game-A/a.bin'' = Some 0 \<and>
   filter isOpen (effects (snd (downloadFile exampleEnv ''Game-A'' ''/mnt'' ''/dl/Game-A'' 0 8 0
      \<lparr>relativePath = ''a.bin'', fileSize = 8\<rparr> 0 emptyFileState))) =
     [OpenRead ''/mnt/a.bin'' 0, OpenWrite ''/dl/Game-A/a.bin'' FlagW]"
  by (simp add: model_defs example_defs)

section \<open>Cancellation in the middle of a file (C2)\<close>

lemma run_cancelMidFile:
  "case startMountBasedDownload cancelMidFileEnv exampleItem None exampleState of
     (r, s') \<Rightarrow>
       r = None \<and> disk s' ''/dl/Game-A/a.bin'' = Some 4 \<and>
       filter isOpen (effects s') =
         [OpenRead ''/tmp/apprenticevr-mount-Game-A-5/a.bin'' 0,
          OpenWrite ''/dl/Game-A/a.bin'' FlagW] \<and>
       count_list (effects s') (Destroy ''/tmp/apprenticevr-mount-Game-A-5/a.bin'') = 1 \<and>
       count_list (effects s') (Destroy ''/dl/Game-A/a.bin'') = 1 \<and>
       count_list (effects s') (RmDir ''/tmp/apprenticevr-mount-Game-A-5'') = 0 \<and>
       map_option status (queue s' ''Game-A'') = Some Cancelled"
  by (simp add: model_defs example_defs)

text \<open>
  C2. The item is cancelled between the first and the second chunk of its only file. The
  second chunk finds the token tripped and both streams are destroyed, the 4 bytes of the
  first chunk stay on disk; but the promise of the copy stays pending, so the attempt never
  returns and the mount point is never removed. The statement that the copy terminates and
  returns control does not hold of the code.
\<close>

theorem cancel_mid_file_never_settles:
  "fst (copyFileWithProgress cancelMidFileEnv 0 ''/mnt/a.bin'' ''/dl/Game-A/a.bin'' 0
          (onProgress cancelMidFileEnv ''Game-A'' 8 0 0) 0 activeState) = Pending \<and>
   fst (startMountBasedDownload cancelMidFileEnv exampleItem None exampleState) = None \<and>
   disk (snd (startMountBasedDownload cancelMidFileEnv exampleItem None exampleState))
     ''/dl/Game-A/a.bin'' = Some 4 \<and>
   count_list (effects (snd (startMountBasedDownload cancelMidFileEnv exampleItem None
     exampleState))) (Destroy ''/dl/Game-A/a.bin'') = 1 \<and>
   count_list (effects (snd (startMountBasedDownload cancelMidFileEnv exampleItem None
     exampleState))) (RmDir ''/tmp/apprenticevr-mount-Game-A-5'') = 0"
proof -
  have "fst (copyFileWithProgress cancelMidFileEnv 0 ''/mnt/a.bin'' ''/dl/Game-A/a.bin'' 0
          (onProgress cancelMidFileEnv ''Game-A'' 8 0 0) 0 activeState) = Pending"
    by (simp add: model_defs example_defs)
  then show ?thesis
    using run_cancelMidFile by (simp add: split_beta)
qed

section \<open>A second attempt for an active key (C3)\<close>

text \<open>
  C3, as amended. The registry is a map from the key to one controller, so it never holds two
  entries for a key, and a registration replaces the entry that is there. An attempt for a
  key that is already active is not refused: the registry is not consulted, and the mount
  process is started whenever the configuration, the dependency, the directories and the disk
  space are in order.
\<close>

theorem second_attempt_not_refused:
  assumes active: "activeDownloads s (releaseName item) = Some c"
    and cfg: "\<not> configMissing (vrpConfig s)" and rc: "truthy (rclonePath env)"
    and mk: "mkdirError env (pjoin env (downloadPath item) (releaseName item)) = None"
        "mkdirError env (mountPointOf env (releaseName item)) = None"
    and space: "\<not> spaceInsufficient env item"
    and stable: "configStable env"
  shows "(\<exists>args. Spawn (the (rclonePath env)) args
            \<in> set (effects (snd (startMountBasedDownload env item mirrorConfig s)))) \<and>
         (\<forall>dl proc files s0 ts tc tok s1.
            registerAttempt env (releaseName item) dl proc files s0 = (ts, tc, tok, s1) \<longrightarrow>
            activeDownloads s1 (releaseName item) =
              Some \<lparr>cancelToken = tok, mountProcess = Some proc\<rparr>)"
  using startMountBasedDownload_spawns [OF cfg rc mk space stable, of mirrorConfig]
    registerAttempt_entry
  by blast

text \<open>The witness: the example item, already registered, is mounted again.\<close>

theorem second_attempt_not_refused_witness:
  "activeDownloads activeState ''Game-A'' = Some \<lparr>cancelToken = 0, mountProcess = Some 7\<rparr> \<and>
   (\<exists>args. Spawn ''/bin/rclone'' args
      \<in> set (effects (snd (startMountBasedDownload exampleEnv exampleItem None activeState))))"
proof -
  have a: "activeDownloads activeState (releaseName exampleItem) =
             Some \<lparr>cancelToken = 0, mountProcess = Some 7\<rparr>"
    by (simp add: example_defs)
  have cfg: "\<not> configMissing (vrpConfig activeState)"
    by (simp add: example_defs configMissing_def truthy_def)
  have rc: "truthy (rclonePath exampleEnv)"
    by (simp add: example_defs truthy_def)
  have mk: "mkdirError exampleEnv (pjoin exampleEnv (downloadPath exampleItem)
              (releaseName exampleItem)) = None"
    "mkdirError exampleEnv (mountPointOf exampleEnv (releaseName exampleItem)) = None"
    by (simp_all add: exampleEnv_def)
  have sp: "\<not> spaceInsufficient exampleEnv exampleItem"
    by (simp add: spaceInsufficient_def gameSizeBytes_def example_defs)
  show ?thesis
    using second_attempt_not_refused [OF a cfg rc mk sp configStable_example, of None] a
    by (simp add: exampleEnv_def exampleItem_def)
qed

lemma run_active:
  "case startMountBasedDownload exampleEnv exampleItem None activeState of
     (r, s') \<Rightarrow>
       r = Some \<lparr>success = True, startExtraction = True,
                 finalState = Some (exampleItem\<lparr>progress := 100, error := None,
                   speed := Some ''fast'', eta := Some ''soon'', downloadPath := ''/dl/Game-A''\<rparr>)\<rparr> \<and>
       count_list (map isSpawn (effects s')) True = 1 \<and>
       disk s' ''/dl/Game-A/a.bin'' = Some 8"
  by (simp add: model_defs example_defs)

text \<open>
  C3 as stated fails: with the key registered, a second attempt starts a mount process,
  copies the file and returns success; it does not fail fast.
\<close>

theorem second_attempt_mounts_and_transfers:
  "activeDownloads activeState ''Game-A'' = Some \<lparr>cancelToken = 0, mountProcess = Some 7\<rparr> \<and>
   fst (startMountBasedDownload exampleEnv exampleItem None activeState) =
     Some \<lparr>success = True, startExtraction = True,
           finalState = Some (exampleItem\<lparr>progress := 100, error := None, speed := Some ''fast'',
             eta := Some ''soon'', downloadPath := ''/dl/Game-A''\<rparr>)\<rparr> \<and>
   count_list (map isSpawn (effects (snd (startMountBasedDownload exampleEnv exampleItem None
     activeState)))) True = 1 \<and>
   disk (snd (startMountBasedDownload exampleEnv exampleItem None activeState))
     ''/dl/Game-A/a.bin'' = Some 8"
proof -
  have "activeDownloads activeState ''Game-A'' = Some \<lparr>cancelToken = 0, mountProcess = Some 7\<rparr>"
    by (simp add: activeState_def exampleState_def)
  then show ?thesis
    using run_active by (simp add: split_beta)
qed

section \<open>The disk-space preflight (C5)\<close>

text \<open>
  C5. When the configuration, the dependency and the directories are in order, an attempt
  (through \<^verbatim>\<open>startDownload\<close> as well as through \<^verbatim>\<open>startMountBasedDownload\<close> alone) starts a
  mount process exactly when it is not the case that the available space \<open>X\<close> is known, the
  declared size \<open>Y\<close> is positive and \<open>X < 2Y\<close>; in that case it returns failure without a
  mount process. An unknown available space, and a declared size that is missing or parses
  to 0, let the attempt proceed.
\<close>

theorem disk_space_preflight:
  assumes cfg: "\<not> configMissing (vrpConfig s)" and rc: "truthy (rclonePath env)"
    and mk: "mkdirError env (pjoin env (downloadPath item) (releaseName item)) = None"
        "mkdirError env (mountPointOf env (releaseName item)) = None"
    and stable: "configStable env"
    and fresh: "\<forall>a b. Spawn a b \<notin> set (effects s)"
  shows "((\<exists>a b. Spawn a b \<in> set (effects (snd (startDownload env item s)))) =
            (\<not> spaceInsufficient env item)) \<and>
         ((\<exists>a b. Spawn a b \<in> set (effects (snd (startMountBasedDownload env item mirrorConfig s)))) =
            (\<not> spaceInsufficient env item)) \<and>
         (spaceInsufficient env item \<longrightarrow>
            fst (startDownload env item s) = Some failed \<and>
            fst (startMountBasedDownload env item mirrorConfig s) = Some failed)"
proof (cases "spaceInsufficient env item")
  case True
  have "\<And>a b. Spawn a b \<notin> set (effects (snd (startDownload env item s)))"
    using startDownload_rejects(2) [OF cfg rc mk(1) True] fresh by simp
  moreover have "\<And>a b. Spawn a b \<notin> set (effects (snd (startMountBasedDownload env item mirrorConfig s)))"
    using startMountBasedDownload_rejects(2) [OF cfg rc mk True] fresh by simp
  ultimately show ?thesis
    using True startDownload_rejects(1) [OF cfg rc mk(1) True]
      startMountBasedDownload_rejects(1) [OF cfg rc mk True, of mirrorConfig]
    by simp
next
  case False
  let ?s3 = "otherTasks env AwaitMirror
          (updateItemStatus (releaseName item) Downloading 0 None None None None
             (otherTasks env AwaitDiskSpace (otherTasks env AwaitMkdir
                (emit (MkDir (pjoin env (downloadPath item) (releaseName item)))
                   (snd (updateItem (releaseName item)
                      (noUpdates\<lparr>u_downloadPath :=
                         Some (pjoin env (downloadPath item) (releaseName item))\<rparr>) s))))))"
  have c3: "\<not> configMissing (vrpConfig ?s3)"
    using cfg stable by (simp add: vrpConfig_otherTasks)
  have "\<exists>args. Spawn (the (rclonePath env)) args
          \<in> set (effects (snd (startMountBasedDownload env item (chooseSource env) ?s3)))"
    by (rule startMountBasedDownload_spawns [OF c3 rc mk False stable])
  then have a: "\<exists>a b. Spawn a b \<in> set (effects (snd (startDownload env item s)))"
    unfolding startDownload_proceeds [OF cfg rc mk(1) False] by blast
  have "\<exists>args. Spawn (the (rclonePath env)) args
          \<in> set (effects (snd (startMountBasedDownload env item mirrorConfig s)))"
    by (rule startMountBasedDownload_spawns [OF cfg rc mk False stable])
  then have b: "\<exists>a b. Spawn a b \<in> set (effects (snd (startMountBasedDownload env item mirrorConfig s)))"
    by blast
  from a b False show ?thesis by simp
qed

text \<open>
  The witness: with 2 GB declared and 1 GB available the attempt is rejected without a mount;
  with 1024 bytes declared and 4096 available it mounts.
\<close>

theorem disk_space_preflight_witness:
  "spaceInsufficient lowSpaceEnv exampleItem \<and>
   fst (startDownload lowSpaceEnv exampleItem exampleState) = Some failed \<and>
   \<not> (\<exists>a b. Spawn a b \<in> set (effects (snd (startDownload lowSpaceEnv exampleItem exampleState)))) \<and>
   \<not> spaceInsufficient exampleEnv exampleItem \<and>
   (\<exists>a b. Spawn a b \<in> set (effects (snd (startDownload exampleEnv exampleItem exampleState))))"
proof -
  have cfg: "\<not> configMissing (vrpConfig exampleState)"
    by (simp add: example_defs configMissing_def truthy_def)
  have rc: "truthy (rclonePath lowSpaceEnv)" "truthy (rclonePath exampleEnv)"
    by (simp_all add: example_defs truthy_def)
  have mk: "mkdirError lowSpaceEnv (pjoin lowSpaceEnv (downloadPath exampleItem)
              (releaseName exampleItem)) = None"
    "mkdirError lowSpaceEnv (mountPointOf lowSpaceEnv (releaseName exampleItem)) = None"
    by (simp_all add: lowSpaceEnv_def exampleEnv_def)
  have mk': "mkdirError exampleEnv (pjoin exampleEnv (downloadPath exampleItem)
              (releaseName exampleItem)) = None"
    "mkdirError exampleEnv (mountPointOf exampleEnv (releaseName exampleItem)) = None"
    by (simp_all add: exampleEnv_def)
  have fresh: "\<forall>a b. Spawn a b \<notin> set (effects exampleState)"
    by (simp add: exampleState_def)
  have low: "spaceInsufficient lowSpaceEnv exampleItem"
    by (simp add: spaceInsufficient_def gameSizeBytes_def example_defs)
  have ok: "\<not> spaceInsufficient exampleEnv exampleItem"
    by (simp add: spaceInsufficient_def gameSizeBytes_def example_defs)
  show ?thesis
    using disk_space_preflight [OF cfg rc(1) mk configStable_lowSpace fresh, of None]
      disk_space_preflight [OF cfg rc(2) mk' configStable_example fresh, of None] low ok
    by simp
qed

section \<open>Mount readiness (C6)\<close>

lemma attemptBody_timeout:
  assumes mk: "mkdirError env dl = None" "mkdirError env mp = None"
    and space: "\<not> spaceInsufficient env item"
    and polls: "\<forall>i<10. readdirPoll env i = None"
  shows "\<exists>e s6. attemptBody env item mc rclone dl mp s = (Threw e, s6) \<and>
           count_list (effects s6) (RmDir x) = count_list (effects s) (RmDir x)"
proof -
  let ?s3 = "otherTasks env AwaitDiskSpace (otherTasks env AwaitMkdir
               (emit (MkDir mp) (otherTasks env AwaitMkdir (emit (MkDir dl) s))))"
  let ?s4 = "updateItemStatus (releaseName item) Downloading 0 None None None None ?s3"
  let ?s5 = "emit (Spawn rclone (mountArgs env ?s4 (releaseName item) mc mp)) ?s4"
  let ?w = "waitForMount env mp 0 ?s5"
  from polls have p: "\<forall>k. 0 \<le> k \<and> k < 10 \<longrightarrow> readdirPoll env k = None" by simp
  have nr: "fst ?w = False"
    using waitForMount_effects_timeout [OF p, of mp ?s5] by (metis fst_conv)
  have c4: "count_list (effects ?s4) (RmDir x) = count_list (effects s) (RmDir x)"
    by simp
  have cw: "count_list (effects (snd ?w)) (RmDir x) = count_list (effects s) (RmDir x)"
    by (simp add: count_RmDir_waitForMount)
  show ?thesis
    using mk space nr c4 cw
    by (simp add: attemptBody_def Let_def spaceInsufficient_iff)
qed

lemma attemptFailed_result:
  "\<not> success (fst (attemptFailed env name mp err s)) \<and>
   \<not> startExtraction (fst (attemptFailed env name mp err s)) \<and>
   count_list (effects (snd (attemptFailed env name mp err s))) (RmDir mp) =
     count_list (effects s) (RmDir mp) + 1"
  by (simp add: attemptFailed_def Let_def count_RmDir_cleanup)

lemma timeout_fails_teardown_once:
  assumes cfg: "\<not> configMissing (vrpConfig s)" and rc: "truthy (rclonePath env)"
    and mk: "mkdirError env (pjoin env (downloadPath item) (releaseName item)) = None"
        "mkdirError env (mountPointOf env (releaseName item)) = None"
    and space: "\<not> spaceInsufficient env item"
    and polls: "\<forall>i<10. readdirPoll env i = None"
  shows "(\<exists>r. fst (startMountBasedDownload env item mc s) = Some r \<and> \<not> success r
              \<and> \<not> startExtraction r) \<and>
         count_list (effects (snd (startMountBasedDownload env item mc s)))
           (RmDir (mountPointOf env (releaseName item))) =
         count_list (effects s) (RmDir (mountPointOf env (releaseName item))) + 1"
proof -
  let ?name = "releaseName item"
  let ?dl = "pjoin env (downloadPath item) ?name"
  let ?mp = "mountPointOf env ?name"
  let ?s1 = "snd (updateItem ?name (noUpdates\<lparr>u_downloadPath := Some ?dl\<rparr>) s)"
  obtain e s6 where ab: "attemptBody env item mc (the (rclonePath env)) ?dl ?mp ?s1 = (Threw e, s6)"
    and c6: "count_list (effects s6) (RmDir ?mp) = count_list (effects ?s1) (RmDir ?mp)"
    using attemptBody_timeout [OF mk space polls, of mc "the (rclonePath env)" ?s1 ?mp] by blast
  show ?thesis
    using cfg rc ab c6 attemptFailed_result [of env ?name ?mp e s6]
    by (simp add: startMountBasedDownload_def Let_def split_beta)
qed

lemma timeout_status_quiet:
  assumes cfg: "\<not> configMissing (vrpConfig s)" and rc: "truthy (rclonePath env)"
    and mk: "mkdirError env (pjoin env (downloadPath item) (releaseName item)) = None"
        "mkdirError env (mountPointOf env (releaseName item)) = None"
    and space: "\<not> spaceInsufficient env item"
    and polls: "\<forall>i<10. readdirPoll env i = None"
    and quiet: "interfere env = (\<lambda>p s. s)"
    and queued: "queue s (releaseName item) = Some it"
  shows "\<exists>it'. queue (snd (startMountBasedDownload env item mc s)) (releaseName item) = Some it' \<and>
           status it' = Error \<and>
           error it' = Some ''Mount failed to become ready within 10 seconds''"
proof -
  let ?name = "releaseName item"
  let ?dl = "pjoin env (downloadPath item) ?name"
  let ?mp = "mountPointOf env ?name"
  let ?s1 = "snd (updateItem ?name (noUpdates\<lparr>u_downloadPath := Some ?dl\<rparr>) s)"
  let ?s3 = "emit (MkDir ?mp) (emit (MkDir ?dl) ?s1)"
  let ?s4 = "updateItemStatus ?name Downloading 0 None None None None ?s3"
  let ?s5 = "emit (Spawn (the (rclonePath env)) (mountArgs env ?s4 ?name mc ?mp)) ?s4"
  let ?w = "waitForMount env ?mp 0 ?s5"
  from polls have p: "\<forall>k. 0 \<le> k \<and> k < 10 \<longrightarrow> readdirPoll env k = None" by simp
  have nr: "fst ?w = False"
    using waitForMount_effects_timeout [OF p, of ?mp ?s5] by (metis fst_conv)
  from cfg obtain c where c: "vrpConfig s = Some c"
    by (auto simp add: configMissing_def split: option.splits)
  have ab: "attemptBody env item mc (the (rclonePath env)) ?dl ?mp ?s1 =
      (Threw (PlainError ''Mount failed to become ready within 10 seconds''), snd ?w)"
    using mk space nr c
    by (simp add: attemptBody_def Let_def spaceInsufficient_iff otherTasks_quiet [OF quiet])
  have q4: "\<exists>it4. queue ?s4 ?name = Some it4 \<and> status it4 = Downloading"
    using queued
    by (simp add: updateItemStatus_def updateItem_def applyUpdates_def noUpdates_def orElse_def
        emit_def Let_def)
  then obtain it4 where it4: "queue (snd ?w) ?name = Some it4" "status it4 = Downloading"
    by (auto simp add: queue_waitForMount_quiet [OF quiet])
  have "\<exists>it'. queue (snd (attemptFailed env ?name ?mp
                 (PlainError ''Mount failed to become ready within 10 seconds'') (snd ?w))) ?name
               = Some it' \<and> status it' = Error \<and>
             error it' = Some ''Mount failed to become ready within 10 seconds''"
    using it4
    by (simp add: attemptFailed_def Let_def findItem_def killedByTerm_def errorText_def
        queue_cleanup_quiet [OF quiet] clearPid_def updateItemStatus_def updateItem_def
        applyUpdates_def noUpdates_def orElse_def emit_def)
  then show ?thesis
    using cfg rc ab by (simp add: startMountBasedDownload_def Let_def split_beta)
qed

lemma startMountBasedDownload_timeout_eq:
  assumes cfg: "\<not> configMissing (vrpConfig s)" and rc: "truthy (rclonePath env)"
    and mk: "mkdirError env (pjoin env (downloadPath item) (releaseName item)) = None"
        "mkdirError env (mountPointOf env (releaseName item)) = None"
    and space: "\<not> spaceInsufficient env item"
    and polls: "\<forall>i<10. readdirPoll env i = None"
    and stable: "configStable env"
  shows "startMountBasedDownload env item mc s =
    (Some (fst (attemptFailed env (releaseName item) (mountPointOf env (releaseName item))
                  (PlainError ''Mount failed to become ready within 10 seconds'')
                  (snd (waitForMount env (mountPointOf env (releaseName item)) 0
                          (whenSpawned env item mc s))))),
     snd (attemptFailed env (releaseName item) (mountPointOf env (releaseName item))
            (PlainError ''Mount failed to become ready within 10 seconds'')
            (snd (waitForMount env (mountPointOf env (releaseName item)) 0
                    (whenSpawned env item mc s)))))"
proof -
  let ?name = "releaseName item"
  let ?dl = "pjoin env (downloadPath item) ?name"
  let ?mp = "mountPointOf env ?name"
  let ?s1 = "snd (updateItem ?name (noUpdates\<lparr>u_downloadPath := Some ?dl\<rparr>) s)"
  let ?w = "waitForMount env ?mp 0 (whenSpawned env item mc s)"
  from polls have p: "\<forall>k. 0 \<le> k \<and> k < 10 \<longrightarrow> readdirPoll env k = None" by simp
  have nr: "fst ?w = False"
    using waitForMount_effects_timeout [OF p, of ?mp "whenSpawned env item mc s"]
    by (metis fst_conv)
  from cfg obtain c where c: "vrpConfig s = Some c"
    by (auto simp add: configMissing_def split: option.splits)
  have ab: "attemptBody env item mc (the (rclonePath env)) ?dl ?mp ?s1 =
      (Threw (PlainError ''Mount failed to become ready within 10 seconds''), snd ?w)"
    using mk space nr c
    by (simp add: attemptBody_def whenSpawned_def Let_def spaceInsufficient_iff
        vrpConfig_otherTasks [OF stable])
  show ?thesis
    using cfg rc ab by (simp add: startMountBasedDownload_def Let_def split_beta)
qed


lemma attemptFailed_keeps_status:
  assumes tq: "\<forall>s. queue (interfere env AwaitUnmount s) = queue s"
      "\<forall>s. queue (interfere env AwaitRmdir s) = queue s"
    and it: "findItem name s = Some it"
    and st: "status it = Cancelled \<or> status it = Error"
  shows "map_option status (queue (snd (attemptFailed env name mp err s)) name) = Some (status it)"
proof -
  have qc: "queue (cleanup env mp (Some name) s) = queue s"
    using tq
    by (cases "truthy (Some name)")
       (simp_all add: cleanup_def Let_def otherTasks_def emit_def split: option.splits)
  let ?s1 = "cleanup env mp (Some name) s"
  let ?s2 = "if activeDownloads ?s1 name \<noteq> None then clearPid name (unregister name ?s1) else ?s1"
  have q2: "map_option status (queue ?s2 name) = Some (status it)"
    using it qc
    by (simp add: findItem_def clearPid_def updateItem_def unregister_def applyUpdates_def
        noUpdates_def orElse_def)
  from st it q2 show ?thesis
    by (auto simp add: attemptFailed_def Let_def findItem_def)
qed

text \<open>
  C6, as amended. Readiness is polled by listing the mount point after a sleep of 1000 ms, at
  most 10 times; any listing that succeeds, an empty one too, makes the mount ready. When
  none of the 10 listings succeeds, the loop has slept and listed exactly 10 times, the
  attempt returns failure, and the mount point is removed exactly once. An item of the queue
  that no other task touches meanwhile ends in status \<open>Error\<close> with the timeout message. An
  item that is \<open>Cancelled\<close> or \<open>Error\<close> when the failure is handled keeps that status (other
  tasks leaving the queue alone during the teardown).
\<close>

theorem mount_readiness_timeout:
  assumes cfg: "\<not> configMissing (vrpConfig s)" and rc: "truthy (rclonePath env)"
    and mk: "mkdirError env (pjoin env (downloadPath item) (releaseName item)) = None"
        "mkdirError env (mountPointOf env (releaseName item)) = None"
    and space: "\<not> spaceInsufficient env item"
  shows
    "(\<forall>k listing s0. k < 10 \<and> readdirPoll env k = Some listing \<longrightarrow>
        fst (waitForMount env (mountPointOf env (releaseName item)) 0 s0)) \<and>
     ((\<forall>i<10. readdirPoll env i = None) \<longrightarrow>
        (\<forall>s0. \<not> fst (waitForMount env (mountPointOf env (releaseName item)) 0 s0) \<and>
              effects (snd (waitForMount env (mountPointOf env (releaseName item)) 0 s0)) =
                effects s0 @
                concat (replicate 10 [Sleep 1000, ReadDir (mountPointOf env (releaseName item))])) \<and>
        (\<exists>r. fst (startMountBasedDownload env item mirrorConfig s) = Some r \<and> \<not> success r
              \<and> \<not> startExtraction r) \<and>
        count_list (effects (snd (startMountBasedDownload env item mirrorConfig s)))
           (RmDir (mountPointOf env (releaseName item))) =
         count_list (effects s) (RmDir (mountPointOf env (releaseName item))) + 1 \<and>
        (interfere env = (\<lambda>p s. s) \<longrightarrow>
           (\<forall>it. queue s (releaseName item) = Some it \<longrightarrow>
              (\<exists>it'. queue (snd (startMountBasedDownload env item mirrorConfig s)) (releaseName item)
                       = Some it' \<and> status it' = Error \<and>
                     error it' = Some ''Mount failed to become ready within 10 seconds'')))) \<and>
     ((\<forall>s0. queue (interfere env AwaitUnmount s0) = queue s0) \<and>
      (\<forall>s0. queue (interfere env AwaitRmdir s0) = queue s0) \<longrightarrow>
        (\<forall>err s0 it.
           findItem (releaseName item) s0 = Some it \<and> (status it = Cancelled \<or> status it = Error) \<longrightarrow>
           map_option status
             (queue (snd (attemptFailed env (releaseName item)
                            (mountPointOf env (releaseName item)) err s0)) (releaseName item)) =
           Some (status it)))"
proof (intro conjI impI allI)
  fix k listing s0
  assume "k < 10 \<and> readdirPoll env k = Some listing"
  then show "fst (waitForMount env (mountPointOf env (releaseName item)) 0 s0)"
    using waitForMount_ready [of 0 k env listing] by simp
next
  fix err s0 it
  assume tq: "(\<forall>s0. queue (interfere env AwaitUnmount s0) = queue s0) \<and>
      (\<forall>s0. queue (interfere env AwaitRmdir s0) = queue s0)"
    and it: "findItem (releaseName item) s0 = Some it \<and> (status it = Cancelled \<or> status it = Error)"
  show "map_option status
             (queue (snd (attemptFailed env (releaseName item)
                            (mountPointOf env (releaseName item)) err s0)) (releaseName item)) =
           Some (status it)"
    using attemptFailed_keeps_status [of env "releaseName item" s0 it] tq it by blast
next
  fix s0
  assume polls: "\<forall>i<10. readdirPoll env i = None"
  then have p: "\<forall>k. 0 \<le> k \<and> k < 10 \<longrightarrow> readdirPoll env k = None" by simp
  show "\<not> fst (waitForMount env (mountPointOf env (releaseName item)) 0 s0)"
    using waitForMount_effects_timeout [OF p, of "mountPointOf env (releaseName item)" s0]
    by (metis fst_conv)
  show "effects (snd (waitForMount env (mountPointOf env (releaseName item)) 0 s0)) =
          effects s0 @
          concat (replicate 10 [Sleep 1000, ReadDir (mountPointOf env (releaseName item))])"
    using waitForMount_effects_timeout [OF p, of "mountPointOf env (releaseName item)" s0]
    by simp
next
  assume polls: "\<forall>i<10. readdirPoll env i = None"
  show "\<exists>r. fst (startMountBasedDownload env item mirrorConfig s) = Some r \<and> \<not> success r
              \<and> \<not> startExtraction r"
    using timeout_fails_teardown_once [OF cfg rc mk space polls] by blast
  show "count_list (effects (snd (startMountBasedDownload env item mirrorConfig s)))
           (RmDir (mountPointOf env (releaseName item))) =
         count_list (effects s) (RmDir (mountPointOf env (releaseName item))) + 1"
    using timeout_fails_teardown_once [OF cfg rc mk space polls] by blast
next
  fix it
  assume polls: "\<forall>i<10. readdirPoll env i = None"
    and quiet: "interfere env = (\<lambda>p s. s)"
    and queued: "queue s (releaseName item) = Some it"
  show "\<exists>it'. queue (snd (startMountBasedDownload env item mirrorConfig s)) (releaseName item)
                       = Some it' \<and> status it' = Error \<and>
                     error it' = Some ''Mount failed to become ready within 10 seconds''"
    by (rule timeout_status_quiet [OF cfg rc mk space polls quiet queued])
qed

text \<open>
  The witness: with no listing ever succeeding the example item ends in \<open>Error\<close> after one
  removal of the mount point; with empty listings the mount is ready.
\<close>

theorem mount_readiness_timeout_witness:
  "(\<exists>r. fst (startMountBasedDownload timeoutEnv exampleItem None exampleState) = Some r \<and>
        \<not> success r \<and> \<not> startExtraction r) \<and>
   count_list (effects (snd (startMountBasedDownload timeoutEnv exampleItem None exampleState)))
     (RmDir (mountPointOf timeoutEnv ''Game-A'')) = 1 \<and>
   (\<exists>it'. queue (snd (startMountBasedDownload timeoutEnv exampleItem None exampleState)) ''Game-A''
             = Some it' \<and> status it' = Error \<and>
           error it' = Some ''Mount failed to become ready within 10 seconds'') \<and>
   fst (waitForMount (exampleEnv\<lparr>readdirPoll := (\<lambda>_. Some [])\<rparr>)
          (mountPointOf (exampleEnv\<lparr>readdirPoll := (\<lambda>_. Some [])\<rparr>) ''Game-A'') 0 exampleState)"
proof -
  have cfg: "\<not> configMissing (vrpConfig exampleState)"
    by (simp add: example_defs configMissing_def truthy_def)
  have rc: "truthy (rclonePath timeoutEnv)"
    "truthy (rclonePath (exampleEnv\<lparr>readdirPoll := (\<lambda>_. Some [])\<rparr>))"
    by (simp_all add: example_defs truthy_def)
  have mk: "mkdirError timeoutEnv (pjoin timeoutEnv (downloadPath exampleItem)
              (releaseName exampleItem)) = None"
    "mkdirError timeoutEnv (mountPointOf timeoutEnv (releaseName exampleItem)) = None"
    by (simp_all add: timeoutEnv_def exampleEnv_def)
  have mk': "mkdirError (exampleEnv\<lparr>readdirPoll := (\<lambda>_. Some [])\<rparr>)
       (pjoin (exampleEnv\<lparr>readdirPoll := (\<lambda>_. Some [])\<rparr>) (downloadPath exampleItem)
              (releaseName exampleItem)) = None"
    "mkdirError (exampleEnv\<lparr>readdirPoll := (\<lambda>_. Some [])\<rparr>)
       (mountPointOf (exampleEnv\<lparr>readdirPoll := (\<lambda>_. Some [])\<rparr>) (releaseName exampleItem)) = None"
    by (simp_all add: exampleEnv_def)
  have sp: "\<not> spaceInsufficient timeoutEnv exampleItem"
    "\<not> spaceInsufficient (exampleEnv\<lparr>readdirPoll := (\<lambda>_. Some [])\<rparr>) exampleItem"
    by (simp_all add: spaceInsufficient_def gameSizeBytes_def example_defs)
  have polls: "\<forall>i<10. readdirPoll timeoutEnv i = None"
    by (simp add: timeoutEnv_def)
  have quiet: "interfere timeoutEnv = (\<lambda>p s. s)"
    by (simp add: timeoutEnv_def exampleEnv_def)
  have name: "releaseName exampleItem = ''Game-A''"
    by (simp add: exampleItem_def)
  have queued: "queue exampleState ''Game-A'' = Some exampleItem"
    by (simp add: exampleState_def)
  have eff: "effects exampleState = []"
    by (simp add: exampleState_def)
  have ready: "(3::nat) < 10 \<and> readdirPoll (exampleEnv\<lparr>readdirPoll := (\<lambda>_. Some [])\<rparr>) 3 = Some []"
    by simp
  note timeout = mount_readiness_timeout [OF cfg rc(1) mk sp(1), of None, unfolded name]
  note listing = mount_readiness_timeout [OF cfg rc(2) mk' sp(2), of None, unfolded name]
  from timeout polls have a:
    "\<exists>r. fst (startMountBasedDownload timeoutEnv exampleItem None exampleState) = Some r \<and>
        \<not> success r \<and> \<not> startExtraction r"
    by blast
  from timeout polls have b:
    "count_list (effects (snd (startMountBasedDownload timeoutEnv exampleItem None exampleState)))
       (RmDir (mountPointOf timeoutEnv ''Game-A'')) =
     count_list (effects exampleState) (RmDir (mountPointOf timeoutEnv ''Game-A'')) + 1"
    by blast
  from timeout polls quiet queued have c:
    "\<exists>it'. queue (snd (startMountBasedDownload timeoutEnv exampleItem None exampleState)) ''Game-A''
             = Some it' \<and> status it' = Error \<and>
           error it' = Some ''Mount failed to become ready within 10 seconds''"
    by blast
  from listing ready have d:
    "fst (waitForMount (exampleEnv\<lparr>readdirPoll := (\<lambda>_. Some [])\<rparr>)
          (mountPointOf (exampleEnv\<lparr>readdirPoll := (\<lambda>_. Some [])\<rparr>) ''Game-A'') 0 exampleState)"
    by blast
  from a b c d show ?thesis
    by (simp add: eff)
qed

text \<open>
  C6 as stated fails when the item is cancelled while the mount is awaited: no listing
  succeeds, the attempt fails, and the item keeps the status \<open>Cancelled\<close>, since the handler
  of the timeout leaves an item alone that is \<open>Cancelled\<close> or \<open>Error\<close> already.
\<close>

theorem timeout_after_cancel_keeps_cancelled:
  "readdirPoll cancelDuringWaitEnv 0 = None \<and> readdirPoll cancelDuringWaitEnv 1 = None \<and>
   readdirPoll cancelDuringWaitEnv 2 = None \<and> readdirPoll cancelDuringWaitEnv 3 = None \<and>
   readdirPoll cancelDuringWaitEnv 4 = None \<and> readdirPoll cancelDuringWaitEnv 5 = None \<and>
   readdirPoll cancelDuringWaitEnv 6 = None \<and> readdirPoll cancelDuringWaitEnv 7 = None \<and>
   readdirPoll cancelDuringWaitEnv 8 = None \<and> readdirPoll cancelDuringWaitEnv 9 = None \<and>
   map_option success (fst (startMountBasedDownload cancelDuringWaitEnv exampleItem None
     exampleState)) = Some False \<and>
   map_option status (queue (snd (startMountBasedDownload cancelDuringWaitEnv exampleItem None
     exampleState)) ''Game-A'') = Some Cancelled \<and>
   map_option error (queue (snd (startMountBasedDownload cancelDuringWaitEnv exampleItem None
     exampleState)) ''Game-A'') = Some None"
proof -
  have polls: "\<And>i. readdirPoll cancelDuringWaitEnv i = None"
    by (simp add: cancelDuringWaitEnv_def timeoutEnv_def)
  have cfg: "\<not> configMissing (vrpConfig exampleState)"
    by (simp add: example_defs configMissing_def truthy_def)
  have rc: "truthy (rclonePath cancelDuringWaitEnv)"
    by (simp add: example_defs truthy_def)
  have mk: "mkdirError cancelDuringWaitEnv (pjoin cancelDuringWaitEnv (downloadPath exampleItem)
              (releaseName exampleItem)) = None"
    "mkdirError cancelDuringWaitEnv (mountPointOf cancelDuringWaitEnv (releaseName exampleItem))
       = None"
    by (simp_all add: cancelDuringWaitEnv_def timeoutEnv_def exampleEnv_def)
  have sp: "\<not> spaceInsufficient cancelDuringWaitEnv exampleItem"
    by (simp add: spaceInsufficient_def gameSizeBytes_def example_defs)
  have run: "case attemptFailed cancelDuringWaitEnv ''Game-A''
                 (mountPointOf cancelDuringWaitEnv ''Game-A'')
                 (PlainError ''Mount failed to become ready within 10 seconds'')
                 (snd (waitForMount cancelDuringWaitEnv (mountPointOf cancelDuringWaitEnv ''Game-A'')
                         0 (whenSpawned cancelDuringWaitEnv exampleItem None exampleState))) of
               (r, s') \<Rightarrow> success r = False \<and>
                 map_option status (queue s' ''Game-A'') = Some Cancelled \<and>
                 map_option error (queue s' ''Game-A'') = Some None"
    by (simp add: model_defs whenSpawned_def example_defs)
  have name: "releaseName exampleItem = ''Game-A''"
    by (simp add: exampleItem_def)
  show ?thesis
    using run polls
    by (simp add: startMountBasedDownload_timeout_eq [OF cfg rc mk sp _ configStable_cancelDuringWait]
        name split_beta)
qed

section \<open>Completion (C8)\<close>

lemma downloadFiles_done_not_cancelled:
  "downloadFiles env name mp dl tok ts files i tc s = (LoopDone, s') \<Longrightarrow> \<not> cancelled s tok \<Longrightarrow>
   \<not> cancelled s' tok"
proof (induction files arbitrary: i tc s)
  case Nil
  then show ?case by simp
next
  case (Cons f rest)
  obtain pr s1 where df: "downloadFile env name mp dl tok ts i f tc s = (pr, s1)"
    by (cases "downloadFile env name mp dl tok ts i f tc s")
  show ?case
  proof (cases pr)
    case (Resolved n)
    with Cons.prems df have nc: "\<not> cancelled s1 tok"
      and rec: "downloadFiles env name mp dl tok ts rest (Suc i) (tc + n) s1 = (LoopDone, s')"
      by (auto split: if_splits)
    from Cons.IH [OF rec nc] show ?thesis .
  next
    case (Rejected e)
    with Cons.prems df show ?thesis by (auto split: if_splits)
  next
    case Pending
    with Cons.prems df show ?thesis by (auto split: if_splits)
  qed
qed


text \<open>
  C8, as amended. When the loop has copied every enumerated file and the item is still
  \<open>Downloading\<close> at the final check, the attempt returns \<open>success = true\<close> and
  \<open>startExtraction = true\<close> with that item as its final state. The attempt itself clears the
  pid and drops the registry entry; it does not write a status, so the item stays
  \<open>Downloading\<close>.
\<close>

theorem all_files_copied_starts_extraction:
  assumes enum: "getFilesRecursively (pjoin env) mp None (mountTree env) = Inr files"
    and reg: "registerAttempt env name dl proc files (otherTasks env AwaitEnumerate s) =
                (ts, tc, tok, s1)"
    and loop: "downloadFiles env name mp dl tok ts files 0 tc s1 = (LoopDone, s2)"
    and still: "findItem name s2 = Some it" "status it = Downloading"
  shows "fst (transferFiles env name mp dl proc s) =
           Returned \<lparr>success = True, startExtraction = True, finalState = Some it\<rparr> \<and>
         (interfere env = (\<lambda>p s. s) \<longrightarrow>
            queue (snd (transferFiles env name mp dl proc s)) name = Some (it\<lparr>pid := None\<rparr>) \<and>
            activeDownloads (snd (transferFiles env name mp dl proc s)) name = None)"
proof -
  from registerAttempt_entry [OF reg] have "\<not> cancelled s1 tok" by simp
  from downloadFiles_done_not_cancelled [OF loop this] have nc: "\<not> cancelled s2 tok" .
  have fin: "finishAttempt env name mp False s2 =
      (\<lparr>success = True, startExtraction = True, finalState = Some it\<rparr>,
       cleanup env mp (Some name) (clearPid name (unregister name s2)))"
    using still by (simp add: finishAttempt_def Let_def)
  have tf: "transferFiles env name mp dl proc s =
      (Returned \<lparr>success = True, startExtraction = True, finalState = Some it\<rparr>,
       cleanup env mp (Some name) (clearPid name (unregister name s2)))"
    using enum reg loop nc fin by (simp add: transferFiles_def)
  have "interfere env = (\<lambda>p s. s) \<Longrightarrow>
      queue (cleanup env mp (Some name) (clearPid name (unregister name s2))) name
        = Some (it\<lparr>pid := None\<rparr>) \<and>
      activeDownloads (cleanup env mp (Some name) (clearPid name (unregister name s2))) name = None"
    using still
    by (simp add: queue_cleanup_quiet activeDownloads_cleanup_quiet clearPid_def updateItem_def
        unregister_def findItem_def applyUpdates_def noUpdates_def orElse_def)
  with tf show ?thesis by simp
qed

text \<open>The witness: the example file is copied and the result asks for extraction.\<close>

theorem all_files_copied_starts_extraction_witness:
  "fst (transferFiles exampleEnv ''Game-A'' ''/mnt'' ''/dl/Game-A'' 7 exampleState) =
     Returned \<lparr>success = True, startExtraction = True,
               finalState = Some (exampleItem\<lparr>progress := 100, error := None,
                 speed := Some ''fast'', eta := Some ''soon''\<rparr>)\<rparr> \<and>
   queue (snd (transferFiles exampleEnv ''Game-A'' ''/mnt'' ''/dl/Game-A'' 7 exampleState))
     ''Game-A'' =
     Some (exampleItem\<lparr>progress := 100, error := None, speed := Some ''fast'',
             eta := Some ''soon'', pid := None\<rparr>)"
proof -
  define files where "files = [\<lparr>relativePath = ''a.bin'', fileSize = 8\<rparr>]"
  define r where "r = registerAttempt exampleEnv ''Game-A'' ''/dl/Game-A'' 7 files
                        (otherTasks exampleEnv AwaitEnumerate exampleState)"
  define l where "l = downloadFiles exampleEnv ''Game-A'' ''/mnt'' ''/dl/Game-A''
                        (fst (snd (snd r))) (fst r) files 0 (fst (snd r)) (snd (snd (snd r)))"
  define it where "it = exampleItem\<lparr>progress := 100, error := None, speed := Some ''fast'',
                          eta := Some ''soon''\<rparr>"
  have enum: "getFilesRecursively (pjoin exampleEnv) ''/mnt'' None (mountTree exampleEnv) = Inr files"
    by (simp add: files_def exampleEnv_def getFilesRecursively_def relativePathOf_def truthy_def)
  have reg: "registerAttempt exampleEnv ''Game-A'' ''/dl/Game-A'' 7 files
               (otherTasks exampleEnv AwaitEnumerate exampleState) =
             (fst r, fst (snd r), fst (snd (snd r)), snd (snd (snd r)))"
    by (simp add: r_def)
  have ev: "case l of (out, s2) \<Rightarrow> out = LoopDone \<and> findItem ''Game-A'' s2 = Some it"
    unfolding l_def r_def files_def it_def
    by (simp add: model_defs example_defs)
  then have loop: "l = (LoopDone, snd l)" and still: "findItem ''Game-A'' (snd l) = Some it"
    by (auto simp add: split_beta prod_eq_iff)
  have st: "status it = Downloading"
    by (simp add: it_def exampleItem_def)
  have quiet: "interfere exampleEnv = (\<lambda>p s. s)"
    by (simp add: exampleEnv_def)
  show ?thesis
    using all_files_copied_starts_extraction [OF enum reg loop [unfolded l_def] still [unfolded l_def] st] quiet
    by (simp add: it_def)
qed

lemma run_plain:
  "case startMountBasedDownload exampleEnv exampleItem None exampleState of
     (r, s') \<Rightarrow>
       r = Some \<lparr>success = True, startExtraction = True,
                 finalState = Some (exampleItem\<lparr>progress := 100, error := None,
                   speed := Some ''fast'', eta := Some ''soon'', downloadPath := ''/dl/Game-A''\<rparr>)\<rparr> \<and>
       map_option status (queue s' ''Game-A'') = Some Downloading \<and>
       disk s' ''/dl/Game-A/a.bin'' = Some 8"
  by (simp add: model_defs example_defs)

text \<open>
  C8 as stated fails: after a complete attempt on the example item the result is success with
  \<open>startExtraction\<close>, and the status of the item is \<open>Downloading\<close>, not \<open>Completed\<close>.
\<close>

theorem completed_attempt_leaves_downloading:
  "status exampleItem = Downloading \<and>
   fst (startMountBasedDownload exampleEnv exampleItem None exampleState) =
     Some \<lparr>success = True, startExtraction = True,
           finalState = Some (exampleItem\<lparr>progress := 100, error := None, speed := Some ''fast'',
             eta := Some ''soon'', downloadPath := ''/dl/Game-A''\<rparr>)\<rparr> \<and>
   disk (snd (startMountBasedDownload exampleEnv exampleItem None exampleState))
     ''/dl/Game-A/a.bin'' = Some 8 \<and>
   map_option status (queue (snd (startMountBasedDownload exampleEnv exampleItem None exampleState))
     ''Game-A'') = Some Downloading"
proof -
  have "status exampleItem = Downloading" by (simp add: exampleItem_def)
  then show ?thesis
    using run_plain by (simp add: split_beta)
qed

section \<open>Enumeration (C10)\<close>

lemma getFilesLoop_nonempty:
  "namesNonEmpty entries \<Longrightarrow> getFilesLoop j dir base entries = Inr files \<Longrightarrow>
   \<forall>f \<in> set files. relativePath f \<noteq> []"
proof (induction j dir base entries arbitrary: files rule: getFilesLoop.induct)
  case (1 j dir currentBase)
  then show ?case by simp
next
  case (2 j dir currentBase name e rest)
  then show ?case by simp
next
  case (3 j dir currentBase name sub rest)
  then show ?case
    by (auto simp add: Let_def split: sum.splits)
next
  case (4 j dir currentBase name e rest)
  then show ?case by simp
next
  case (5 j dir currentBase name sz rest)
  then show ?case
    by (auto simp add: Let_def split: sum.splits if_splits)
qed


text \<open>
  C10. For a tree whose entry names are not empty (as a file system gives them), every file
  descriptor that the recursive enumeration returns has a relative path that is not empty,
  whatever \<^verbatim>\<open>path.join\<close> computes: a path emptied by the three replacements falls back to
  the name of the entry.
\<close>

theorem relativePath_nonempty:
  assumes "namesNonEmpty entries"
    and "getFilesRecursively j dir baseDir (Inr entries) = Inr files"
  shows "\<forall>f \<in> set files. relativePath f \<noteq> []"
  using assms getFilesLoop_nonempty
  by (simp add: getFilesRecursively_def Let_def)

text \<open>
  The witness: under the root \<^verbatim>\<open>a\<close> the file \<^verbatim>\<open>a\<close> has the full path \<^verbatim>\<open>a/a\<close>, which the
  replacements empty; its relative path is the name \<^verbatim>\<open>a\<close>.
\<close>

theorem relativePath_nonempty_witness:
  "namesNonEmpty [(''a'', File (Inr 3)), (''d'', Dir (Inr [(''x'', File (Inr 4))]))] \<and>
   getFilesRecursively (\<lambda>a b. a @ ''/'' @ b) ''a'' None
     (Inr [(''a'', File (Inr 3)), (''d'', Dir (Inr [(''x'', File (Inr 4))]))]) =
     Inr [\<lparr>relativePath = ''a'', fileSize = 3\<rparr>, \<lparr>relativePath = ''d/x'', fileSize = 4\<rparr>] \<and>
   [] \<notin> set (map relativePath
     [\<lparr>relativePath = ''a'', fileSize = 3\<rparr>, \<lparr>relativePath = ''d/x'', fileSize = 4\<rparr>])"
proof -
  have n: "namesNonEmpty [(''a'', File (Inr 3)), (''d'', Dir (Inr [(''x'', File (Inr 4))]))]"
    by simp
  have g: "getFilesRecursively (\<lambda>a b. a @ ''/'' @ b) ''a'' None
     (Inr [(''a'', File (Inr 3)), (''d'', Dir (Inr [(''x'', File (Inr 4))]))]) =
     Inr [\<lparr>relativePath = ''a'', fileSize = 3\<rparr>, \<lparr>relativePath = ''d/x'', fileSize = 4\<rparr>]"
    by (simp add: getFilesRecursively_def relativePathOf_def truthy_def)
  from relativePath_nonempty [OF n g] n g show ?thesis by auto
qed

end
